theory Spec2Isabelle
  imports Complex_Main "HOL-Library.AList"
begin

section \<open>Python values shared by the embedded modules\<close>

text \<open>
  Exceptions of the source are values. Only the classes that some modelled statement can
  raise are listed.
\<close>

datatype py_error =
    AttributeError string
  | KeyError string
  | ValueError
  | OperationalError string
  | IntegrityError string
  | RequestException

text \<open>
  A JSON object whose values all have one type: an association list in insertion order.
  \<open>dict_get\<close> is Python's \<open>d.get(k, default)\<close>.
\<close>

type_synonym 'v dict = "(string \<times> 'v) list"

definition dict_get :: "'v dict \<Rightarrow> string \<Rightarrow> 'v \<Rightarrow> 'v" where
  "dict_get d k dflt = (case map_of d k of None \<Rightarrow> dflt | Some v \<Rightarrow> v)"

text \<open>
  A time text is the string that \<open>datetime.now().isoformat()\<close> wrote, or any other
  string a hand-edited file may hold; \<open>datetime.fromisoformat\<close> raises on the latter.
  The clock reading itself is a number handed to every function that reads the clock.
\<close>

datatype time_text = IsoTime nat | NotIso string

fun fromisoformat :: "time_text \<Rightarrow> py_error + nat" where
  "fromisoformat (IsoTime t) = Inr t"
| "fromisoformat (NotIso s) = Inl ValueError"

text \<open>Truthiness of an optional string: \<open>None\<close> and the empty string are false.\<close>

fun truthy :: "string option \<Rightarrow> bool" where
  "truthy None = False"
| "truthy (Some s) = (s \<noteq> [])"

text \<open>
  A subscript \<open>d[key]\<close> on a dictionary whose key may be absent (\<open>None\<close> is the absent key)
  raises \<open>KeyError\<close>; \<open>and_then\<close> runs the rest of a function body after a step that did
  not raise.
\<close>

definition subscript :: "'a option \<Rightarrow> string \<Rightarrow> py_error + 'a" where
  "subscript v key = (case v of None \<Rightarrow> Inl (KeyError key) | Some x \<Rightarrow> Inr x)"

definition and_then :: "py_error + 'a \<Rightarrow> ('a \<Rightarrow> py_error + 'b) \<Rightarrow> py_error + 'b" where
  "and_then m f = (case m of Inl e \<Rightarrow> Inl e | Inr x \<Rightarrow> f x)"

section \<open>Checkpoint store: \<open>scripts/progress_tracker.py\<close>\<close>

subsection \<open>The progress document\<close>

text \<open>
  \<open>current_coin_progress\<close> is a dictionary that is empty, or holds the four keys written by
  \<open>start_coin_collection\<close>, or holds only \<open>current_interval\<close>. An absent key is \<open>None\<close>.
\<close>

record coin_progress =
  cp_start_time :: "time_text option"
  cp_completed_intervals :: "string list option"
  cp_failed_intervals :: "string list option"
  current_interval :: "string option"

definition empty_coin_progress :: coin_progress where
  "empty_coin_progress = \<lparr>cp_start_time = None, cp_completed_intervals = None,
     cp_failed_intervals = None, current_interval = None\<rparr>"

text \<open>
  The progress document is the JSON object of the checkpoint file, which \<open>load_progress\<close>
  hands on as it was read. Any of its keys may be absent: the tracker writes all twelve,
  \<open>setup_progress.py\<close> writes a file with seven. Every field is \<open>None\<close> when its key is absent;
  of the keys whose value may be \<open>null\<close> (\<open>current_coin\<close> and the two times) the value is
  an option in turn. A key that is present has a value of the type these two scripts write.
\<close>

record progress =
  start_time :: "time_text option option"
  total_coins :: "int option"
  total_intervals :: "int option"
  completed_coins :: "string list option"
  current_coin :: "string option option"
  current_coin_progress :: "coin_progress option"
  completed_intervals :: "string list dict option"
  failed_coins :: "string list option"
  failed_intervals :: "string list dict option"
  last_successful_time :: "time_text option option"
  total_completed :: "int option"
  total_failed :: "int option"

definition create_default_progress :: "nat \<Rightarrow> progress" where
  "create_default_progress now =
     \<lparr>start_time = Some (Some (IsoTime now)), total_coins = Some 50, total_intervals = Some 16,
      completed_coins = Some [], current_coin = Some None,
      current_coin_progress = Some empty_coin_progress, completed_intervals = Some [],
      failed_coins = Some [], failed_intervals = Some [], last_successful_time = Some None,
      total_completed = Some 0, total_failed = Some 0\<rparr>"

text \<open>
  The document that \<open>setup_progress.py\<close> writes when it finds no checkpoint file: seven
  keys, with its twenty coins completed in all of its fifteen intervals.
\<close>

definition setup_completed_coins :: "string list" where
  "setup_completed_coins =
     [''ETHUSDT'', ''BTCUSDT'', ''SUIUSDT'', ''SOLUSDT'', ''XRPUSDT'',
      ''DOGEUSDT'', ''HBARUSDT'', ''PEPEUSDT'', ''ADAUSDT'', ''CRVUSDT'',
      ''TRXUSDT'', ''BONKUSDT'', ''AVAXUSDT'', ''UNIUSDT'', ''OMUSDT'',
      ''LINKUSDT'', ''CFXUSDT'', ''ERAUSDT'', ''ENAUSDT'', ''PENGUUSDT'']"

definition setup_all_intervals :: "string list" where
  "setup_all_intervals =
     [''1m'', ''3m'', ''5m'', ''15m'', ''30m'',
      ''1h'', ''2h'', ''4h'', ''6h'', ''8h'', ''12h'',
      ''1d'', ''3d'', ''1w'', ''1M'']"

definition setup_progress_document :: "nat \<Rightarrow> progress" where
  "setup_progress_document now =
     \<lparr>start_time = Some (Some (IsoTime now)), total_coins = Some 50, total_intervals = Some 16,
      completed_coins = Some setup_completed_coins, current_coin = Some None,
      current_coin_progress = Some empty_coin_progress,
      completed_intervals = Some (map (\<lambda>coin. (coin, setup_all_intervals)) setup_completed_coins),
      failed_coins = None, failed_intervals = None, last_successful_time = None,
      total_completed = None, total_failed = None\<rparr>"

subsection \<open>The checkpoint file\<close>

text \<open>
  The file is absent, or holds a progress document, or holds text that \<open>json.load\<close>
  rejects. \<open>writable\<close> says whether creating the directory and writing the file succeed;
  \<open>save_progress\<close> swallows the exception when they do not.
\<close>

datatype file_content = Json progress | NotJson

record checkpoint_fs =
  progress_file :: "file_content option"
  writable :: bool

definition save_progress :: "checkpoint_fs \<Rightarrow> progress \<Rightarrow> checkpoint_fs" where
  "save_progress fs p = (if writable fs then fs\<lparr>progress_file := Some (Json p)\<rparr> else fs)"

definition load_progress :: "checkpoint_fs \<Rightarrow> nat \<Rightarrow> progress \<times> checkpoint_fs" where
  "load_progress fs now =
     (case progress_file fs of
        Some (Json p) \<Rightarrow> (p, fs)
      | Some NotJson \<Rightarrow> (create_default_progress now, fs)
      | None \<Rightarrow> (let p = create_default_progress now in (p, save_progress fs p)))"

text \<open>\<open>ProgressTracker.__init__\<close>: the tracker is its in-memory document and the file.\<close>

definition ProgressTracker_init :: "checkpoint_fs \<Rightarrow> nat \<Rightarrow> progress \<times> checkpoint_fs" where
  "ProgressTracker_init fs now = load_progress fs now"

subsection \<open>Transitions of a coin\<close>

text \<open>\<open>start_coin_collection\<close> only assigns keys, so it cannot raise.\<close>

definition start_coin_collection ::
  "progress \<times> checkpoint_fs \<Rightarrow> nat \<Rightarrow> string \<Rightarrow> progress \<times> checkpoint_fs" where
  "start_coin_collection t now symbol =
     (let p = (fst t)\<lparr>current_coin := Some (Some symbol),
                current_coin_progress :=
                  Some \<lparr>cp_start_time = Some (IsoTime now), cp_completed_intervals = Some [],
                        cp_failed_intervals = Some [], current_interval = None\<rparr>\<rparr>
      in (p, save_progress (snd t) p))"

text \<open>
  \<open>fail_coin_collection\<close> reads \<open>failed_coins\<close> first and \<open>total_failed\<close> last. The result is
  the exception raised, if any, the document in memory and the file; an exception leaves
  the file as it was, and the second one leaves the document changed in memory.
\<close>

definition fail_coin_collection ::
  "progress \<times> checkpoint_fs \<Rightarrow> string \<Rightarrow> string \<Rightarrow>
     py_error option \<times> progress \<times> checkpoint_fs" where
  "fail_coin_collection t symbol err =
     (case failed_coins (fst t) of
        None \<Rightarrow> (Some (KeyError ''failed_coins''), fst t, snd t)
      | Some failed \<Rightarrow>
          (let p1 = (fst t)\<lparr>failed_coins :=
                               Some (if symbol \<notin> set failed then failed @ [symbol] else failed),
                             current_coin := Some None,
                             current_coin_progress := Some empty_coin_progress\<rparr>
           in case total_failed p1 of
                None \<Rightarrow> (Some (KeyError ''total_failed''), p1, snd t)
              | Some n \<Rightarrow>
                  (let p = p1\<lparr>total_failed := Some (n + 1)\<rparr>
                   in (None, p, save_progress (snd t) p))))"

subsection \<open>Remaining work\<close>

text \<open>
  Both functions read their keys in the order of the source: the completed units, the
  failed units and, after the list of remaining units is built, the in-flight unit.
\<close>

definition get_remaining_coins :: "progress \<Rightarrow> string list \<Rightarrow> py_error + string list" where
  "get_remaining_coins p all_coins =
     and_then (subscript (completed_coins p) ''completed_coins'') (\<lambda>completed.
     and_then (subscript (failed_coins p) ''failed_coins'') (\<lambda>failed.
       (let remaining = filter (\<lambda>coin. coin \<notin> set completed \<and> coin \<notin> set failed) all_coins
        in and_then (subscript (current_coin p) ''current_coin'') (\<lambda>cur.
             Inr (if truthy cur \<and> the cur \<notin> set remaining
                  then the cur # remaining
                  else remaining)))))"

definition get_remaining_intervals ::
  "progress \<Rightarrow> string \<Rightarrow> string list \<Rightarrow> py_error + string list" where
  "get_remaining_intervals p symbol all_intervals =
     and_then (subscript (completed_intervals p) ''completed_intervals'') (\<lambda>done_by_coin.
     and_then (subscript (failed_intervals p) ''failed_intervals'') (\<lambda>failed_by_coin.
       (let completed = set (dict_get done_by_coin symbol []);
            failed = set (dict_get failed_by_coin symbol []);
            remaining = filter (\<lambda>interval. interval \<notin> completed \<and> interval \<notin> failed)
                          all_intervals
        in and_then (subscript (current_coin_progress p) ''current_coin_progress'')
             (\<lambda>coin_progress.
                (let cur = current_interval coin_progress
                 in Inr (if truthy cur \<and> the cur \<notin> set remaining
                         then the cur # remaining
                         else remaining))))))"

subsection \<open>Status report\<close>

text \<open>
  The percentages are Python floats in the source; here they are the exact quotients.
\<close>

record summary =
  s_coin_progress :: rat
  s_interval_progress :: rat
  s_completed_coins :: int
  s_failed_coins :: int
  s_total_completed_intervals :: int
  s_total_failed_intervals :: int
  s_current_coin :: "string option"
  s_current_interval :: "string option"
  s_start_time :: "time_text option"
  s_last_successful_time :: "time_text option"

definition get_progress_summary :: "progress \<Rightarrow> py_error + summary" where
  "get_progress_summary p =
     and_then (subscript (total_coins p) ''total_coins'') (\<lambda>total_coins.
     and_then (subscript (total_intervals p) ''total_intervals'') (\<lambda>total_intervals.
     and_then (subscript (completed_coins p) ''completed_coins'') (\<lambda>completed_list.
     and_then (subscript (failed_coins p) ''failed_coins'') (\<lambda>failed_list.
     and_then (subscript (completed_intervals p) ''completed_intervals'') (\<lambda>done_by_coin.
     and_then (subscript (failed_intervals p) ''failed_intervals'') (\<lambda>failed_by_coin.
       (let completed = int (length completed_list);
            failed = int (length failed_list);
            total_done = (\<Sum>v \<leftarrow> map snd done_by_coin. int (length v));
            total_bad = (\<Sum>v \<leftarrow> map snd failed_by_coin. int (length v));
            coin_rate = (if total_coins > 0
                         then of_int completed / of_int total_coins * 100 else 0);
            interval_rate = (if total_coins * total_intervals > 0
                             then of_int total_done / of_int (total_coins * total_intervals) * 100
                             else 0)
        in and_then (subscript (current_coin p) ''current_coin'') (\<lambda>cur.
           and_then (subscript (current_coin_progress p) ''current_coin_progress'')
             (\<lambda>coin_progress.
           and_then (subscript (start_time p) ''start_time'') (\<lambda>started.
           and_then (subscript (last_successful_time p) ''last_successful_time'') (\<lambda>finished.
             Inr \<lparr>s_coin_progress = coin_rate,
                  s_interval_progress = interval_rate,
                  s_completed_coins = completed,
                  s_failed_coins = failed,
                  s_total_completed_intervals = total_done,
                  s_total_failed_intervals = total_bad,
                  s_current_coin = cur,
                  s_current_interval = current_interval coin_progress,
                  s_start_time = started,
                  s_last_successful_time = finished\<rparr>)))))))))))"

text \<open>
  What \<open>print_progress_summary\<close> prints, one value per \<open>print\<close> call. Its result is the
  lines printed and the exception that ended it, if any.
\<close>

datatype printed =
    Rule
  | Title
  | CoinRate rat int int
  | IntervalRate rat int int
  | CompletedCoins int
  | FailedCoins int
  | CompletedIntervals int
  | FailedIntervals int
  | CurrentCoin string
  | CurrentInterval string
  | StartedAt nat
  | LastSuccess nat

text \<open>
  A time is printed only when it is truthy (neither \<open>None\<close> nor the empty string), and
  printing it parses it first.
\<close>

fun time_truthy :: "time_text option \<Rightarrow> bool" where
  "time_truthy None = False"
| "time_truthy (Some (IsoTime t)) = True"
| "time_truthy (Some (NotIso s)) = (s \<noteq> [])"

definition print_time :: "(nat \<Rightarrow> printed) \<Rightarrow> time_text option \<Rightarrow> py_error + printed list" where
  "print_time line v =
     (if time_truthy v then map_sum id (\<lambda>t. [line t]) (fromisoformat (the v)) else Inr [])"

text \<open>The statements of a body in order: the output up to the first one that raises.\<close>

fun run_prints :: "(py_error + printed list) list \<Rightarrow> printed list \<times> py_error option" where
  "run_prints [] = ([], None)"
| "run_prints (Inl e # rest) = ([], Some e)"
| "run_prints (Inr out # rest) = (case run_prints rest of (later, r) \<Rightarrow> (out @ later, r))"

definition print_progress_summary :: "progress \<Rightarrow> printed list \<times> py_error option" where
  "print_progress_summary p =
     (case get_progress_summary p of
        Inl e \<Rightarrow> ([], Some e)
      | Inr s \<Rightarrow>
          run_prints
            [Inr [Rule, Title, Rule],
             and_then (subscript (total_coins p) ''total_coins'') (\<lambda>total_coins.
               Inr [CoinRate (s_coin_progress s) (s_completed_coins s) total_coins]),
             and_then (subscript (total_coins p) ''total_coins'') (\<lambda>total_coins.
             and_then (subscript (total_intervals p) ''total_intervals'') (\<lambda>total_intervals.
               Inr [IntervalRate (s_interval_progress s) (s_total_completed_intervals s)
                      (total_coins * total_intervals)])),
             Inr [CompletedCoins (s_completed_coins s), FailedCoins (s_failed_coins s),
                  CompletedIntervals (s_total_completed_intervals s),
                  FailedIntervals (s_total_failed_intervals s)],
             Inr (if truthy (s_current_coin s)
                  then CurrentCoin (the (s_current_coin s)) #
                       (if truthy (s_current_interval s)
                        then [CurrentInterval (the (s_current_interval s))] else [])
                  else []),
             print_time StartedAt (s_start_time s),
             print_time LastSuccess (s_last_successful_time s),
             Inr [Rule]])"

text \<open>
  The \<open>--status\<close> branch of \<open>main\<close>: it builds a \<open>HistoricalDataCollector\<close>, whose
  constructor builds a \<open>ProgressTracker\<close>, and prints the summary. The result is what was
  printed, the exception that ends the script if any, and the checkpoint file afterwards.
\<close>

definition status_operation ::
  "checkpoint_fs \<Rightarrow> nat \<Rightarrow> (printed list \<times> py_error option) \<times> checkpoint_fs" where
  "status_operation fs now =
     (let t = ProgressTracker_init fs now in (print_progress_summary (fst t), snd t))"

section \<open>Storage: \<open>data/database.py\<close>\<close>

subsection \<open>Tables\<close>

text \<open>
  The values of the REAL columns are of a type \<open>'p\<close> that the model never inspects. A
  value of a candle dictionary is \<open>None\<close> when SQLite receives NULL for it: Python's
  \<open>None\<close>, or a NaN (which \<open>pd.to_numeric(..., errors='coerce')\<close> produces and the
  SQLite binding stores as NULL).
\<close>

text \<open>The key \<open>open\<close> of the dictionary is the field \<open>open'\<close>.\<close>

record 'p item =
  timestamp :: int
  open' :: "'p option"
  high :: "'p option"
  low :: "'p option"
  close :: "'p option"
  volume :: "'p option"

text \<open>
  A row of a per-coin table \<open>{coin}_{interval}\<close>: the surrogate key, the six candle columns
  (all NOT NULL, \<open>timestamp\<close> UNIQUE) and \<open>created_at\<close>, which defaults to the clock.
\<close>

record 'p row =
  id_col :: int
  timestamp_col :: int
  open_price :: 'p
  high_price :: 'p
  low_price :: 'p
  close_price :: 'p
  volume_col :: 'p
  created_at :: nat

text \<open>A row of \<open>data_collection_status\<close>, UNIQUE(symbol, interval).\<close>

record status_row =
  st_id :: int
  st_symbol :: string
  st_interval :: string
  last_collected_timestamp :: "int option"
  last_updated :: nat

text \<open>
  A table is its rows in rowid order and the AUTOINCREMENT counter that SQLite keeps for it
  in \<open>sqlite_sequence\<close>. Rowids are only ever assigned by AUTOINCREMENT here, so the next
  one is the counter plus one. The tables of other shapes (\<open>price_data\<close>,
  \<open>sentiment_data\<close>, \<open>realtime_data\<close>, \<open>trades\<close>) are not touched by the functions embedded
  here; they matter only as names that are taken.
\<close>

datatype 'p table =
    CoinTable "'p row list" int
  | StatusTable "status_row list" int
  | OtherTable

text \<open>
  SQLite compares table names without regard to ASCII case. The database is a map from the
  case-folded name to the table.
\<close>

definition ascii_lower :: "char \<Rightarrow> char" where
  "ascii_lower c =
     (case map_of (zip ''ABCDEFGHIJKLMNOPQRSTUVWXYZ'' ''abcdefghijklmnopqrstuvwxyz'') c of
        None \<Rightarrow> c | Some d \<Rightarrow> d)"

definition sql_name :: "string \<Rightarrow> string" where
  "sql_name n = map ascii_lower n"

type_synonym 'p database = "string \<rightharpoonup> 'p table"

definition create_table_if_not_exists ::
  "string \<Rightarrow> 'p table \<Rightarrow> 'p database \<Rightarrow> 'p database" where
  "create_table_if_not_exists n t db =
     (if db (sql_name n) = None then db(sql_name n \<mapsto> t) else db)"

subsection \<open>\<open>init_database\<close>\<close>

definition coins :: "string list" where
  "coins =
     [''ETHUSDT'', ''BTCUSDT'', ''SUIUSDT'', ''SOLUSDT'', ''XRPUSDT'', ''ERAUSDT'', ''ENAUSDT'',
      ''PENGUUSDT'', ''DOGEUSDT'', ''HBARUSDT'', ''PEPEUSDT'', ''ADAUSDT'', ''CRVUSDT'',
      ''TRXUSDT'', ''BONKUSDT'', ''AVAXUSDT'', ''UNIUSDT'', ''OMUSDT'', ''LINKUSDT'',
      ''CFXUSDT'', ''BCHUSDT'', ''WIFUSDT'', ''XLMUSDT'', ''CUSDT'', ''SPKUSDT'',
      ''SEIUSDT'', ''KERNELUSDT'', ''IDEXUSDT'', ''LTCUSDT'', ''CAKEUSDT'',
      ''SYRUPUSDT'', ''REIUSDT'', ''WLDUSDT'', ''FISUSDT'', ''TRUMPUSDT'',
      ''ASRUSDT'', ''FLOKIUSDT'', ''ENSUSDT'', ''ETHFIUSDT'', ''AAVEUSDT'',
      ''NEARUSDT'', ''SAHARAUSDT'', ''INJUSDT'', ''ONDOUSDT'', ''NEIROUSDT'',
      ''TAOUSDT'', ''CVXUSDT'', ''TONUSDT'', ''BIGTIMEUSDT'', ''SLPUSDT'']"

definition db_intervals :: "string list" where
  "db_intervals =
     [''1m'', ''3m'', ''5m'', ''15m'', ''30m'',
      ''1h'', ''2h'', ''4h'', ''6h'', ''8h'', ''12h'',
      ''1d'', ''3d'', ''1w'', ''1month'']"

text \<open>The names of the per-coin tables, in the order of the two nested loops.\<close>

definition coin_table_names :: "string list" where
  "coin_table_names =
     concat (map (\<lambda>coin. map (\<lambda>interval. coin @ ''_'' @ interval) db_intervals) coins)"

definition init_database :: "'p database \<Rightarrow> 'p database" where
  "init_database db =
     (let db1 = create_table_if_not_exists ''price_data'' OtherTable db;
          db2 = fold (\<lambda>table_name. create_table_if_not_exists table_name (CoinTable [] 0))
                  coin_table_names db1;
          db3 = create_table_if_not_exists ''sentiment_data'' OtherTable db2;
          db4 = create_table_if_not_exists ''realtime_data'' OtherTable db3;
          db5 = create_table_if_not_exists ''trades'' OtherTable db4
      in create_table_if_not_exists ''data_collection_status'' (StatusTable [] 0) db5)"

subsection \<open>\<open>save_price_data_to_coin_table\<close>\<close>

text \<open>
  One \<open>INSERT OR REPLACE\<close> into a per-coin table: without the table, or with a table of
  another shape, the statement raises \<open>OperationalError\<close>; a NULL for a NOT NULL column
  raises \<open>IntegrityError\<close>; otherwise every row with the same timestamp is deleted and the
  new row is appended under a fresh rowid.
\<close>

definition insert_or_replace ::
  "'p database \<Rightarrow> nat \<Rightarrow> string \<Rightarrow> 'p item \<Rightarrow> py_error + 'p database" where
  "insert_or_replace db now table_name x =
     (case db (sql_name table_name) of
        None \<Rightarrow> Inl (OperationalError ''no such table'')
      | Some (CoinTable rows seq) \<Rightarrow>
          if None \<in> set [open' x, high x, low x, close x, volume x]
          then Inl (IntegrityError ''NOT NULL constraint failed'')
          else Inr (db(sql_name table_name \<mapsto>
                 CoinTable
                   (filter (\<lambda>r. timestamp_col r \<noteq> timestamp x) rows @
                    [\<lparr>id_col = seq + 1, timestamp_col = timestamp x,
                      open_price = the (open' x), high_price = the (high x),
                      low_price = the (low x), close_price = the (close x),
                      volume_col = the (volume x), created_at = now\<rparr>])
                   (seq + 1)))
      | Some _ \<Rightarrow> Inl (OperationalError ''no such column''))"

text \<open>The \<open>for item in data\<close> loop; the first exception ends it.\<close>

fun insert_all ::
  "'p database \<Rightarrow> nat \<Rightarrow> string \<Rightarrow> 'p item list \<Rightarrow> py_error + 'p database" where
  "insert_all db now table_name [] = Inr db"
| "insert_all db now table_name (x # xs) =
     (case insert_or_replace db now table_name x of
        Inl e \<Rightarrow> Inl e
      | Inr db' \<Rightarrow> insert_all db' now table_name xs)"

definition replace_status ::
  "'p database \<Rightarrow> nat \<Rightarrow> string \<Rightarrow> string \<Rightarrow> int \<Rightarrow> py_error + 'p database" where
  "replace_status db now symbol interval last_timestamp =
     (case db (sql_name ''data_collection_status'') of
        Some (StatusTable rows seq) \<Rightarrow>
          Inr (db(sql_name ''data_collection_status'' \<mapsto>
            StatusTable
              (filter (\<lambda>r. \<not> (st_symbol r = symbol \<and> st_interval r = interval)) rows @
               [\<lparr>st_id = seq + 1, st_symbol = symbol, st_interval = interval,
                 last_collected_timestamp = Some last_timestamp, last_updated = now\<rparr>])
              (seq + 1)))
      | _ \<Rightarrow> Inl (OperationalError ''no such table''))"

text \<open>
  The whole function runs in one transaction: \<open>Inr\<close> is the committed database, \<open>Inl\<close> the
  exception that is raised again after the connection has rolled everything back.
\<close>

definition save_price_data_to_coin_table ::
  "'p database \<Rightarrow> nat \<Rightarrow> string \<Rightarrow> string \<Rightarrow> 'p item list \<Rightarrow> py_error + 'p database" where
  "save_price_data_to_coin_table db now symbol interval data =
     (let table_name = symbol @ ''_'' @ interval
      in case insert_all db now table_name data of
           Inl e \<Rightarrow> Inl e
         | Inr db1 \<Rightarrow>
             if data \<noteq> []
             then replace_status db1 now symbol interval (timestamp (last data))
             else Inr db1)"

text \<open>The database that is visible after a call that started from \<open>db\<close>.\<close>

definition db_after :: "'p database \<Rightarrow> py_error + 'p database \<Rightarrow> 'p database" where
  "db_after db r = (case r of Inl e \<Rightarrow> db | Inr db' \<Rightarrow> db')"

text \<open>The rows of a per-coin table (none when there is no such table), and their candles.\<close>

definition coin_rows :: "'p database \<Rightarrow> string \<Rightarrow> 'p row list" where
  "coin_rows db table_name =
     (case db (sql_name table_name) of Some (CoinTable rows seq) \<Rightarrow> rows | _ \<Rightarrow> [])"

definition candle_values :: "'p row \<Rightarrow> int \<times> 'p \<times> 'p \<times> 'p \<times> 'p \<times> 'p" where
  "candle_values r =
     (timestamp_col r, open_price r, high_price r, low_price r, close_price r, volume_col r)"

text \<open>
  For the proofs: an item is complete when none of its five values is NULL; its values as
  they are stored; and what one \<open>INSERT OR REPLACE\<close> does to the candle columns of a table.
\<close>

definition complete :: "'p item \<Rightarrow> bool" where
  "complete x = (None \<notin> set [open' x, high x, low x, close x, volume x])"

definition item_values :: "'p item \<Rightarrow> int \<times> 'p \<times> 'p \<times> 'p \<times> 'p \<times> 'p" where
  "item_values x = (timestamp x, the (open' x), the (high x), the (low x), the (close x), the (volume x))"

definition replace_values ::
  "'p item \<Rightarrow> (int \<times> 'p \<times> 'p \<times> 'p \<times> 'p \<times> 'p) list \<Rightarrow> (int \<times> 'p \<times> 'p \<times> 'p \<times> 'p \<times> 'p) list" where
  "replace_values x vs = filter (\<lambda>v. fst v \<noteq> timestamp x) vs @ [item_values x]"

subsection \<open>Example values\<close>

text \<open>A candle with timestamp \<open>t\<close> and all five values equal to \<open>v\<close>.\<close>

definition example_candle :: "int \<Rightarrow> nat \<Rightarrow> nat item" where
  "example_candle t v =
     \<lparr>timestamp = t, open' = Some v, high = Some v, low = Some v, close = Some v,
      volume = Some v\<rparr>"

subsection \<open>Gap detection\<close>

definition get_last_collected_timestamp :: "'p database \<Rightarrow> string \<Rightarrow> string \<Rightarrow> int option" where
  "get_last_collected_timestamp db symbol interval =
     (case db (sql_name ''data_collection_status'') of
        Some (StatusTable rows seq) \<Rightarrow>
          (case find (\<lambda>r. st_symbol r = symbol \<and> st_interval r = interval) rows of
             None \<Rightarrow> None
           | Some r \<Rightarrow> last_collected_timestamp r)
      | _ \<Rightarrow> None)"

text \<open>
  The clock is read twice, in milliseconds: \<open>now\<close> for \<open>current_time\<close> and, only when the
  history window is computed, \<open>now'\<close>. The local UTC offset is taken to be the same at \<open>now'\<close>
  and 1095 days before it. The test \<open>if last_timestamp:\<close> is false for \<open>None\<close> and for 0.
\<close>

record missing_period =
  mp_start_time :: int
  mp_end_time :: int

definition days_ms :: "int \<Rightarrow> int" where
  "days_ms d = d * 24 * 60 * 60 * 1000"

definition get_missing_data_period ::
  "'p database \<Rightarrow> int \<Rightarrow> int \<Rightarrow> string \<Rightarrow> string \<Rightarrow> missing_period option" where
  "get_missing_data_period db now now' symbol interval =
     (let last_timestamp = get_last_collected_timestamp db symbol interval;
          current_time = now
      in if last_timestamp \<noteq> None \<and> the last_timestamp \<noteq> 0
         then Some \<lparr>mp_start_time = the last_timestamp + 1, mp_end_time = current_time\<rparr>
         else Some \<lparr>mp_start_time = now' - days_ms 1095, mp_end_time = current_time\<rparr>)"

section \<open>Fetchers: \<open>scripts/collect_historical_data.py\<close>\<close>

subsection \<open>The market-data API\<close>

text \<open>
  One kline of a response: entry 0 (the open time, named \<open>timestamp\<close> by the data frames),
  entries 1 to 5 after \<open>pd.to_numeric(..., errors='coerce')\<close> (\<open>None\<close> is NaN), and entry 6
  (the close time). The five further entries are dropped by every fetcher.
\<close>

record 'p kline =
  k_timestamp :: int
  k_open :: "'p option"
  k_high :: "'p option"
  k_low :: "'p option"
  k_close :: "'p option"
  k_volume :: "'p option"
  k_close_time :: int

record request =
  r_symbol :: string
  r_interval :: string
  startTime :: int
  endTime :: int
  limit :: int

text \<open>
  An entry of the JSON list of a response is a kline that the conversion to a data frame
  accepts, or an entry on which the conversion raises (an entry that has not the twelve
  fields, or whose open time \<open>pd.to_datetime\<close> rejects). Of such an entry only
  \<open>int(entry[6])\<close> matters to the code: it is a number, or raises (\<open>None\<close>). The open
  time of a kline is an integer, as the API sends it, so that \<open>data[-1][0] + 1\<close> is defined
  on every answer that converts.
\<close>

datatype 'p entry = Kline "'p kline" | Malformed "int option"

fun entry_close_time :: "'p entry \<Rightarrow> int option" where
  "entry_close_time (Kline k) = Some (k_close_time k)"
| "entry_close_time (Malformed c) = c"

text \<open>
  The conversion of a list of entries to a data frame (\<open>pd.DataFrame(..., columns=[...])\<close>
  and the conversions of its columns): \<open>None\<close> when it raises. A data frame is the list of
  its rows; the empty frame is the empty list.
\<close>

fun to_frame :: "'p entry list \<Rightarrow> 'p kline list option" where
  "to_frame [] = Some []"
| "to_frame (Kline k # es) = map_option ((#) k) (to_frame es)"
| "to_frame (Malformed c # es) = None"

text \<open>
  The answer to one request: a JSON list of entries with status 200; a response with an
  error status (4xx or 5xx), on which \<open>raise_for_status\<close> raises; or no usable response
  (timeout, connection reset, a body that is not a JSON list), on which the call or the
  first use of the body raises.
\<close>

datatype 'p response = Klines "'p entry list" | HttpError nat | ConnectionError

text \<open>
  The API is any function from the number of calls a fetch has made so far and the request
  to the answer, so that the same request may be answered differently when repeated.
\<close>

type_synonym 'p api = "nat \<Rightarrow> request \<Rightarrow> 'p response"

text \<open>
  What a fetch does besides computing: the requests it sends, the pauses it makes (in
  milliseconds) and its passes through \<open>_rate_limit\<close>, in order.
\<close>

datatype event = Request request | Sleep nat | RateLimited

fun requests_of :: "event list \<Rightarrow> request list" where
  "requests_of [] = []"
| "requests_of (Request r # evs) = r # requests_of evs"
| "requests_of (e # evs) = requests_of evs"

text \<open>The intervals both collector classes iterate over.\<close>

definition collector_intervals :: "string list" where
  "collector_intervals =
     [''1m'', ''3m'', ''5m'', ''15m'', ''30m'',
      ''1h'', ''2h'', ''4h'', ''6h'', ''8h'', ''12h'',
      ''1d'', ''3d'', ''1w'', ''1M'']"

subsection \<open>\<open>HistoricalDataCollector.get_historical_data\<close>\<close>

text \<open>
  The \<open>while\<close> loop may run forever (nothing forces the API to return later klines), so it
  is given fuel: \<open>None\<close> as result means the loop is still running when the fuel is used up.
  Otherwise the result is the exception that left the loop or the entries collected.
  \<open>n\<close> counts the calls made so far. The cursor is set from \<open>int(last_candle[6])\<close> after
  the entries have been added to \<open>all_data\<close>.
\<close>

fun get_historical_data_loop ::
  "nat \<Rightarrow> 'p api \<Rightarrow> string \<Rightarrow> string \<Rightarrow> int \<Rightarrow> nat \<Rightarrow> int \<Rightarrow> 'p entry list \<Rightarrow>
     event list \<times> (py_error + 'p entry list) option" where
  "get_historical_data_loop 0 api symbol interval end_time n current_start all_data = ([], None)"
| "get_historical_data_loop (Suc fuel) api symbol interval end_time n current_start all_data =
     (if current_start < end_time
      then (let params = \<lparr>r_symbol = symbol, r_interval = interval, startTime = current_start,
                           endTime = end_time, limit = 1000\<rparr>
            in case api n params of
                 Klines data \<Rightarrow>
                   if data = [] then ([Request params], Some (Inr all_data))
                   else (case entry_close_time (last data) of
                           None \<Rightarrow> ([Request params], Some (Inl ValueError))
                         | Some close_time \<Rightarrow>
                             (case get_historical_data_loop fuel api symbol interval end_time
                                     (Suc n) (close_time + 1) (all_data @ data) of
                                (evs, r) \<Rightarrow> (Request params # Sleep 100 # evs, r)))
               | _ \<Rightarrow> ([Request params], Some (Inl RequestException)))
      else ([], Some (Inr all_data)))"

text \<open>
  The function (its parameter \<open>start_time\<close> is \<open>start_time'\<close> here, the plain name being
  a field of the progress document): after the loop the entries are converted to a data
  frame; any exception, of the loop or of the conversion, is logged and the empty data
  frame returned.
\<close>

definition get_historical_data ::
  "nat \<Rightarrow> 'p api \<Rightarrow> string \<Rightarrow> string \<Rightarrow> int \<Rightarrow> int \<Rightarrow> event list \<times> 'p kline list option" where
  "get_historical_data fuel api symbol interval start_time' end_time =
     (case get_historical_data_loop fuel api symbol interval end_time 0 start_time' [] of
        (evs, None) \<Rightarrow> (evs, None)
      | (evs, Some (Inl e)) \<Rightarrow> (evs, Some [])
      | (evs, Some (Inr all_data)) \<Rightarrow>
          (case to_frame all_data of
             None \<Rightarrow> (evs, Some [])
           | Some df \<Rightarrow> (evs, Some df)))"

subsection \<open>\<open>FastHistoricalDataCollector.get_historical_data_batch\<close>\<close>

definition calculate_batch_size :: "string \<Rightarrow> int" where
  "calculate_batch_size interval =
     dict_get
       [(''1m'', 1000 * 60 * 1000),
        (''3m'', 1000 * 3 * 60 * 1000),
        (''5m'', 1000 * 5 * 60 * 1000),
        (''15m'', 1000 * 15 * 60 * 1000),
        (''30m'', 1000 * 30 * 60 * 1000),
        (''1h'', 1000 * 60 * 60 * 1000),
        (''2h'', 1000 * 2 * 60 * 60 * 1000),
        (''4h'', 1000 * 4 * 60 * 60 * 1000),
        (''6h'', 1000 * 6 * 60 * 60 * 1000),
        (''8h'', 1000 * 8 * 60 * 60 * 1000),
        (''12h'', 1000 * 12 * 60 * 60 * 1000),
        (''1d'', 1000 * 24 * 60 * 60 * 1000),
        (''3d'', 1000 * 3 * 24 * 60 * 60 * 1000),
        (''1w'', 1000 * 7 * 24 * 60 * 60 * 1000),
        (''1M'', 1000 * 30 * 24 * 60 * 60 * 1000)]
       interval (1000 * 60 * 1000)"

text \<open>
  Here \<open>all_data\<close> is a list of data frames, one per non-empty response that was
  converted. The request, the conversion and the cursor update are inside one \<open>try\<close>: when
  the request fails, or the conversion of a non-empty response raises, the exception is
  logged, the cursor moves to the end of the window without a pause, and the loop
  continues.
\<close>

fun get_historical_data_batch_loop ::
  "nat \<Rightarrow> 'p api \<Rightarrow> string \<Rightarrow> string \<Rightarrow> int \<Rightarrow> nat \<Rightarrow> int \<Rightarrow> 'p kline list list \<Rightarrow>
     event list \<times> 'p kline list list option" where
  "get_historical_data_batch_loop 0 api symbol interval end_time n current_start all_data =
     ([], None)"
| "get_historical_data_batch_loop (Suc fuel) api symbol interval end_time n current_start all_data =
     (if current_start < end_time
      then (let batch_size = calculate_batch_size interval;
                current_end = min (current_start + batch_size) end_time;
                params = \<lparr>r_symbol = symbol, r_interval = interval, startTime = current_start,
                           endTime = current_end, limit = 1000\<rparr>
            in case api n params of
                 Klines data \<Rightarrow>
                   if data \<noteq> []
                   then (case to_frame data of
                           None \<Rightarrow>
                             (case get_historical_data_batch_loop fuel api symbol interval
                                     end_time (Suc n) current_end all_data of
                                (evs, r) \<Rightarrow> (Request params # evs, r))
                         | Some df \<Rightarrow>
                             (case get_historical_data_batch_loop fuel api symbol interval
                                     end_time (Suc n) (k_timestamp (last df) + 1)
                                     (all_data @ [df]) of
                                (evs, r) \<Rightarrow> (Request params # Sleep 50 # evs, r)))
                   else (case get_historical_data_batch_loop fuel api symbol interval end_time
                                 (Suc n) current_end all_data of
                           (evs, r) \<Rightarrow> (Request params # Sleep 50 # evs, r))
               | _ \<Rightarrow>
                   (case get_historical_data_batch_loop fuel api symbol interval end_time (Suc n)
                           current_end all_data of
                      (evs, r) \<Rightarrow> (Request params # evs, r)))
      else ([], Some all_data))"

text \<open>\<open>drop_duplicates(subset=['timestamp'])\<close> keeps the first row of every timestamp.\<close>

fun drop_duplicates :: "'p kline list \<Rightarrow> 'p kline list" where
  "drop_duplicates [] = []"
| "drop_duplicates (x # xs) =
     x # filter (\<lambda>y. k_timestamp y \<noteq> k_timestamp x) (drop_duplicates xs)"

definition get_historical_data_batch ::
  "nat \<Rightarrow> 'p api \<Rightarrow> string \<Rightarrow> string \<Rightarrow> int \<Rightarrow> int \<Rightarrow> event list \<times> 'p kline list option" where
  "get_historical_data_batch fuel api symbol interval start_time' end_time =
     (case get_historical_data_batch_loop fuel api symbol interval end_time 0 start_time' [] of
        (evs, None) \<Rightarrow> (evs, None)
      | (evs, Some all_data) \<Rightarrow>
          if all_data \<noteq> []
          then (evs, Some (sort_key k_timestamp (drop_duplicates (concat all_data))))
          else (evs, Some []))"

subsection \<open>\<open>FastHistoricalDataCollector.get_historical_data_async\<close> and \<open>_rate_limit\<close>\<close>

text \<open>
  \<open>_rate_limit\<close> works on the counter \<open>request_count\<close> of the collector object, with
  \<open>max_requests_per_second = 10\<close> and \<open>request_delay = 0.1\<close> seconds.
\<close>

definition max_requests_per_second :: nat where
  "max_requests_per_second = 10"

definition rate_limit :: "nat \<Rightarrow> event list \<times> nat" where
  "rate_limit request_count =
     (let c = request_count + 1
      in if c \<ge> max_requests_per_second then ([RateLimited, Sleep 1000], 0)
         else ([RateLimited, Sleep 100], c))"



subsection \<open>\<open>HistoricalDataCollector.collect_missing_data\<close>\<close>

text \<open>
  The attributes of a \<open>HistoricalDataCollector\<close> object: what \<open>__init__\<close> assigns and the
  methods of the class. The class has no base class and \<open>get_historical_data_batch\<close> is a
  method of \<open>FastHistoricalDataCollector\<close> only.
\<close>

definition HistoricalDataCollector_attributes :: "string list" where
  "HistoricalDataCollector_attributes =
     [''__init__'', ''config'', ''coins_config'', ''database'', ''logger'', ''base_url'', ''api_key'',
      ''secret_key'', ''intervals'', ''limit'', ''progress_tracker'',
      ''get_historical_data'', ''collect_all_data_for_symbol'', ''collect_all_coins_all_data'',
      ''collect_all_data_for_symbol_with_progress'', ''collect_single_coin_single_interval'',
      ''collect_missing_data'', ''collect_all_missing_data'']"

definition getattr :: "string list \<Rightarrow> string \<Rightarrow> py_error + unit" where
  "getattr attributes name =
     (if name \<in> set attributes then Inr () else Inl (AttributeError name))"

text \<open>The dictionary built from a row of the data frame.\<close>

definition item_of_kline :: "'p kline \<Rightarrow> 'p item" where
  "item_of_kline k =
     \<lparr>timestamp = k_timestamp k, open' = k_open k, high = k_high k, low = k_low k,
      close = k_close k, volume = k_volume k\<rparr>"

text \<open>
  The result is the events, the data frame returned (\<open>None\<close> while a fetch loop is still
  running) and the database afterwards. The whole body is inside \<open>try\<close>; every exception
  is logged and the empty frame returned. \<open>now\<close> and \<open>now'\<close> are the clock readings of
  \<open>get_missing_data_period\<close> in milliseconds, \<open>db_now\<close> is the clock of the database.
\<close>

definition collect_missing_data ::
  "nat \<Rightarrow> 'p api \<Rightarrow> 'p database \<Rightarrow> int \<Rightarrow> int \<Rightarrow> nat \<Rightarrow> string \<Rightarrow> string \<Rightarrow>
     event list \<times> 'p kline list option \<times> 'p database" where
  "collect_missing_data fuel api db now now' db_now symbol interval =
     (case get_missing_data_period db now now' symbol interval of
        None \<Rightarrow> ([], Some [], db)
      | Some missing_period \<Rightarrow>
          (let start_time' = mp_start_time missing_period;
               end_time = mp_end_time missing_period
           in if end_time - start_time' < 60000 then ([], Some [], db)
              else (case getattr HistoricalDataCollector_attributes ''get_historical_data_batch'' of
                      Inl e \<Rightarrow> ([], Some [], db)
                    | Inr method \<Rightarrow>
                        (case get_historical_data_batch fuel api symbol interval start_time' end_time of
                           (evs, None) \<Rightarrow> (evs, None, db)
                         | (evs, Some df) \<Rightarrow>
                             if df \<noteq> []
                             then (case save_price_data_to_coin_table db db_now symbol interval
                                          (map item_of_kline df) of
                                     Inl e \<Rightarrow> (evs, Some [], db)
                                   | Inr db' \<Rightarrow> (evs, Some df, db'))
                             else (evs, Some df, db)))))"

subsection \<open>Example API\<close>

text \<open>
  A kline opening at \<open>t\<close> and closing at \<open>t'\<close>, and an API whose first answer is a connection
  failure and whose every later answer is the one kline that opens at the requested start
  time and closes 59 ms later.
\<close>

definition example_kline :: "int \<Rightarrow> int \<Rightarrow> nat kline" where
  "example_kline t t' =
     \<lparr>k_timestamp = t, k_open = Some 1, k_high = Some 1, k_low = Some 1,
      k_close = Some 1, k_volume = Some 1, k_close_time = t'\<rparr>"


text \<open>
  For the statements about the batch loop: the request it sends at cursor \<open>cur\<close>, and the
  cursor it continues with after the answer \<open>resp\<close> to the request \<open>r\<close> (the open time
  of the last kline plus one after a non-empty answer that converts, the end of the
  requested window otherwise).
\<close>

definition batch_params :: "string \<Rightarrow> string \<Rightarrow> int \<Rightarrow> int \<Rightarrow> request" where
  "batch_params s iv e cur = \<lparr>r_symbol = s, r_interval = iv, startTime = cur,
      endTime = min (cur + calculate_batch_size iv) e, limit = 1000\<rparr>"

definition batch_next :: "'p response \<Rightarrow> request \<Rightarrow> int" where
  "batch_next resp r =
     (case resp of
        Klines data \<Rightarrow>
          if data \<noteq> []
          then (case to_frame data of
                  None \<Rightarrow> endTime r
                | Some df \<Rightarrow> k_timestamp (last df) + 1)
          else endTime r
      | _ \<Rightarrow> endTime r)"

text \<open>
  The page a response delivers to the batch fetcher: the data frame of its entries, and
  nothing when the request failed or the conversion raises.
\<close>

definition answer_frame :: "'p response \<Rightarrow> 'p kline list" where
  "answer_frame resp =
     (case resp of
        Klines data \<Rightarrow> (case to_frame data of None \<Rightarrow> [] | Some df \<Rightarrow> df)
      | _ \<Rightarrow> [])"

text \<open>
  An API whose every answer holds an entry that cannot be converted, with a close time of
  zero.
\<close>

definition malformed_api :: "nat api" where
  "malformed_api n r = Klines [Malformed (Some 0)]"

definition steady_api :: "nat api" where
  "steady_api n r = Klines [Kline (example_kline (startTime r) (startTime r + 59))]"

definition one_kline_then_empty_api :: "nat api" where
  "one_kline_then_empty_api n r =
     (if n = 0 then Klines [Kline (example_kline 0 59999)] else Klines [])"

section \<open>Verified properties\<close>

subsection \<open>Checkpoint store\<close>

lemma truthy_iff: "truthy x \<longleftrightarrow> (\<exists>s. x = Some s \<and> s \<noteq> [])"
  by (cases x) auto

text \<open>
  On the checkpoint that \<open>setup_progress.py\<close> writes, which has no key \<open>failed_coins\<close>,
  \<open>get_remaining_coins\<close> raises.
\<close>

lemma remaining_coins_of_setup_document:
  "get_remaining_coins (setup_progress_document now) all_coins = Inl (KeyError ''failed_coins'')"
  by (simp add: get_remaining_coins_def setup_progress_document_def subscript_def and_then_def)

text \<open>
  Claim C4, as stated: for every persisted progress state a resumed run is handed exactly
  the units that are neither completed nor failed. The tracker's own transitions reach a
  state that refutes it: a coin recorded as failed and then started again is in
  \<open>failed_coins\<close> and is \<open>current_coin\<close>, and \<open>get_remaining_coins\<close> puts it first.
\<close>

theorem remaining_coins_returns_failed_in_flight_coin:
  "get_remaining_coins
     (fst (start_coin_collection
        (snd (fail_coin_collection (load_progress \<lparr>progress_file = None, writable = True\<rparr> 0)
           ''BTCUSDT'' ''boom'')) 1 ''BTCUSDT''))
     [''BTCUSDT'', ''ETHUSDT''] = Inr [''BTCUSDT'', ''ETHUSDT'']
   \<and> failed_coins
     (fst (start_coin_collection
        (snd (fail_coin_collection (load_progress \<lparr>progress_file = None, writable = True\<rparr> 0)
           ''BTCUSDT'' ''boom'')) 1 ''BTCUSDT'')) = Some [''BTCUSDT'']"
  by (simp add: get_remaining_coins_def start_coin_collection_def fail_coin_collection_def
      load_progress_def create_default_progress_def save_progress_def Let_def
      subscript_def and_then_def)

text \<open>
  Claim C4, amended: on a progress state that holds the keys the two functions read,
  each returns the units of the given list that are neither completed nor failed, in the
  order of the list, with the recorded in-flight unit (a non-empty \<open>current_coin\<close>,
  respectively \<open>current_interval\<close>) put in front when it is not among them, whatever its
  status, and nothing else; a coin that \<open>fail_coin_collection\<close> has just marked failed
  is not among the coins returned; and on a progress state that lacks one of these keys
  (as the checkpoint written by \<open>setup_progress.py\<close> lacks \<open>failed_coins\<close> and
  \<open>failed_intervals\<close>) the function raises \<open>KeyError\<close>.
\<close>

theorem remaining_units_are_pending_plus_in_flight:
  "(completed_coins p = Some completed \<longrightarrow> failed_coins p = Some failed \<longrightarrow>
    current_coin p = Some cur \<longrightarrow>
      get_remaining_coins p all_coins =
        Inr ((if truthy cur \<and> the cur \<notin> set all_coins - (set completed \<union> set failed)
              then [the cur] else [])
             @ filter (\<lambda>coin. coin \<notin> set completed \<union> set failed) all_coins))
   \<and> (completed_intervals p = Some done_by_coin \<longrightarrow> failed_intervals p = Some failed_by_coin \<longrightarrow>
      current_coin_progress p = Some coin_progress \<longrightarrow>
      get_remaining_intervals p symbol all_intervals =
        Inr ((if truthy (current_interval coin_progress)
                 \<and> the (current_interval coin_progress) \<notin>
                     set all_intervals - (set (dict_get done_by_coin symbol [])
                                            \<union> set (dict_get failed_by_coin symbol []))
              then [the (current_interval coin_progress)] else [])
             @ filter (\<lambda>interval. interval \<notin> set (dict_get done_by_coin symbol [])
                                            \<union> set (dict_get failed_by_coin symbol []))
                 all_intervals))
   \<and> (fst (fail_coin_collection t c err) = None \<longrightarrow>
      get_remaining_coins (fst (snd (fail_coin_collection t c err))) all_coins = Inr xs \<longrightarrow>
      c \<notin> set xs)
   \<and> (completed_coins q = None \<or> failed_coins q = None \<or> current_coin q = None \<longrightarrow>
      (\<exists>key. get_remaining_coins q all_coins = Inl (KeyError key)))
   \<and> (completed_intervals q = None \<or> failed_intervals q = None
        \<or> current_coin_progress q = None \<longrightarrow>
      (\<exists>key. get_remaining_intervals q symbol all_intervals = Inl (KeyError key)))"
proof -
  have coins: "completed_coins p = Some completed \<longrightarrow> failed_coins p = Some failed \<longrightarrow>
    current_coin p = Some cur \<longrightarrow>
      get_remaining_coins p all_coins =
        Inr ((if truthy cur \<and> the cur \<notin> set all_coins - (set completed \<union> set failed)
              then [the cur] else [])
             @ filter (\<lambda>coin. coin \<notin> set completed \<union> set failed) all_coins)"
    by (auto simp: get_remaining_coins_def subscript_def and_then_def Let_def)
  have intervals: "completed_intervals p = Some done_by_coin \<longrightarrow>
      failed_intervals p = Some failed_by_coin \<longrightarrow>
      current_coin_progress p = Some coin_progress \<longrightarrow>
      get_remaining_intervals p symbol all_intervals =
        Inr ((if truthy (current_interval coin_progress)
                 \<and> the (current_interval coin_progress) \<notin>
                     set all_intervals - (set (dict_get done_by_coin symbol [])
                                            \<union> set (dict_get failed_by_coin symbol []))
              then [the (current_interval coin_progress)] else [])
             @ filter (\<lambda>interval. interval \<notin> set (dict_get done_by_coin symbol [])
                                            \<union> set (dict_get failed_by_coin symbol []))
                 all_intervals)"
    by (auto simp: get_remaining_intervals_def subscript_def and_then_def Let_def)
  have failed: "fst (fail_coin_collection t c err) = None \<longrightarrow>
      get_remaining_coins (fst (snd (fail_coin_collection t c err))) all_coins = Inr xs \<longrightarrow>
      c \<notin> set xs"
    by (auto simp: get_remaining_coins_def fail_coin_collection_def subscript_def and_then_def
        Let_def split: option.splits if_splits)
  have absent: "completed_coins q = None \<or> failed_coins q = None \<or> current_coin q = None \<longrightarrow>
      (\<exists>key. get_remaining_coins q all_coins = Inl (KeyError key))"
    by (auto simp: get_remaining_coins_def subscript_def and_then_def Let_def
        split: option.splits)
  have absent': "completed_intervals q = None \<or> failed_intervals q = None
        \<or> current_coin_progress q = None \<longrightarrow>
      (\<exists>key. get_remaining_intervals q symbol all_intervals = Inl (KeyError key))"
    by (auto simp: get_remaining_intervals_def subscript_def and_then_def Let_def
        split: option.splits)
  from coins intervals failed absent absent' show ?thesis by blast
qed

theorem remaining_units_are_pending_plus_in_flight_witness:
  "completed_coins (fst (snd (fail_coin_collection
       (load_progress \<lparr>progress_file = None, writable = True\<rparr> 0) ''BTCUSDT'' ''boom''))) = Some []
   \<and> failed_coins (fst (snd (fail_coin_collection
       (load_progress \<lparr>progress_file = None, writable = True\<rparr> 0) ''BTCUSDT'' ''boom'')))
       = Some [''BTCUSDT'']
   \<and> current_coin (fst (snd (fail_coin_collection
       (load_progress \<lparr>progress_file = None, writable = True\<rparr> 0) ''BTCUSDT'' ''boom''))) = Some None
   \<and> get_remaining_coins (fst (snd (fail_coin_collection
       (load_progress \<lparr>progress_file = None, writable = True\<rparr> 0) ''BTCUSDT'' ''boom'')))
       [''BTCUSDT'', ''ETHUSDT''] = Inr [''ETHUSDT'']
   \<and> fst (fail_coin_collection
       (load_progress \<lparr>progress_file = None, writable = True\<rparr> 0) ''BTCUSDT'' ''boom'') = None
   \<and> ''BTCUSDT'' \<notin> set [''ETHUSDT'']
   \<and> get_remaining_intervals
       (create_default_progress 0\<lparr>completed_intervals := Some [(''BTCUSDT'', [''1m''])],
          current_coin_progress := Some (empty_coin_progress\<lparr>current_interval := Some ''1h''\<rparr>)\<rparr>)
       ''BTCUSDT'' [''1m'', ''5m''] = Inr [''1h'', ''5m'']
   \<and> failed_coins (fst (load_progress
       \<lparr>progress_file = Some (Json (setup_progress_document 0)), writable = True\<rparr> 1)) = None
   \<and> get_remaining_coins (fst (load_progress
       \<lparr>progress_file = Some (Json (setup_progress_document 0)), writable = True\<rparr> 1))
       [''BTCUSDT'', ''ETHUSDT''] = Inl (KeyError ''failed_coins'')
   \<and> get_remaining_intervals (fst (load_progress
       \<lparr>progress_file = Some (Json (setup_progress_document 0)), writable = True\<rparr> 1))
       ''BTCUSDT'' [''1m'', ''5m''] = Inl (KeyError ''failed_intervals'')"
  using remaining_units_are_pending_plus_in_flight
    [where q = "fst (load_progress
       \<lparr>progress_file = Some (Json (setup_progress_document 0)), writable = True\<rparr> 1)"
       and all_coins = "[''BTCUSDT'', ''ETHUSDT'']" and symbol = "''BTCUSDT''"
       and all_intervals = "[''1m'', ''5m'']"]
    remaining_units_are_pending_plus_in_flight
    [of "fst (snd (fail_coin_collection
           (load_progress \<lparr>progress_file = None, writable = True\<rparr> 0) ''BTCUSDT'' ''boom''))"
        "[]" "[''BTCUSDT'']" None "[''BTCUSDT'', ''ETHUSDT'']" "[]" "[]" empty_coin_progress
        "''BTCUSDT''" "[]"
        "load_progress \<lparr>progress_file = None, writable = True\<rparr> 0" "''BTCUSDT''" "''boom''"
        "[''ETHUSDT'']"]
    remaining_units_are_pending_plus_in_flight
    [of "create_default_progress 0\<lparr>completed_intervals := Some [(''BTCUSDT'', [''1m''])],
          current_coin_progress := Some (empty_coin_progress\<lparr>current_interval := Some ''1h''\<rparr>)\<rparr>"
        "[]" "[]" None "[]" "[(''BTCUSDT'', [''1m''])]" "[]"
        "empty_coin_progress\<lparr>current_interval := Some ''1h''\<rparr>" "''BTCUSDT''" "[''1m'', ''5m'']"]
  by (simp add: fail_coin_collection_def load_progress_def create_default_progress_def
      save_progress_def Let_def empty_coin_progress_def dict_get_def
      get_remaining_coins_def get_remaining_intervals_def setup_progress_document_def
      subscript_def and_then_def)

text \<open>
  Claim C10, as stated: the status operation leaves the persisted checkpoint as it was, also
  when no checkpoint file exists yet. With no file and a writable directory it does not:
  building the tracker writes a default document.
\<close>

theorem status_creates_missing_checkpoint:
  "snd (status_operation \<lparr>progress_file = None, writable = True\<rparr> 0)
     \<noteq> \<lparr>progress_file = None, writable = True\<rparr>"
  by (simp add: status_operation_def ProgressTracker_init_def load_progress_def
      save_progress_def Let_def)

text \<open>
  Claim C10, amended: when a checkpoint file exists, readable as JSON or not, the status
  operation leaves it exactly as it was; when none exists, the operation saves the default
  (empty) progress document (which creates the file if the location is writable).
\<close>

theorem status_operation_checkpoint_effect:
  "snd (status_operation fs now) =
     (if progress_file fs = None then save_progress fs (create_default_progress now) else fs)"
  by (auto simp: status_operation_def ProgressTracker_init_def load_progress_def Let_def
      split: option.splits file_content.splits)

subsection \<open>Storage\<close>

lemma sql_name_append: "sql_name (a @ b) = sql_name a @ sql_name b"
  by (simp add: sql_name_def)

lemma create_table_lookup:
  "create_table_if_not_exists n t db k = (if k = sql_name n \<and> db k = None then Some t else db k)"
  by (auto simp: create_table_if_not_exists_def)

lemma fold_create_table_lookup:
  "fold (\<lambda>n. create_table_if_not_exists n t) names db k =
     (if db k = None \<and> k \<in> sql_name ` set names then Some t else db k)"
  by (induction names arbitrary: db) (auto simp: create_table_lookup)

lemma init_database_empty_lookup:
  "init_database Map.empty k =
     (if k = ''price_data'' then Some OtherTable
      else if k \<in> sql_name ` set coin_table_names then Some (CoinTable [] 0)
      else if k \<in> {''sentiment_data'', ''realtime_data'', ''trades''} then Some OtherTable
      else if k = ''data_collection_status'' then Some (StatusTable [] 0)
      else None)"
proof -
  have n: "sql_name ''price_data'' = ''price_data''" "sql_name ''sentiment_data'' = ''sentiment_data''"
    "sql_name ''realtime_data'' = ''realtime_data''" "sql_name ''trades'' = ''trades''"
    "sql_name ''data_collection_status'' = ''data_collection_status''"
    by (simp_all add: sql_name_def ascii_lower_def)
  show ?thesis
    unfolding init_database_def Let_def
    by (simp add: create_table_lookup fold_create_table_lookup n)
qed

lemma coin_table_name_mem:
  "coin \<in> set coins \<Longrightarrow> interval \<in> set db_intervals \<Longrightarrow>
     coin @ ''_'' @ interval \<in> set coin_table_names"
  by (auto simp: coin_table_names_def)

lemma coin_table_name_last:
  assumes "k \<in> sql_name ` set coin_table_names"
  shows "last k \<in> {CHR ''m'', CHR ''h'', CHR ''d'', CHR ''w''}"
proof -
  from assms obtain coin interval where i: "interval \<in> set db_intervals"
    and k: "k = sql_name (coin @ ''_'' @ interval)"
    by (auto simp: coin_table_names_def)
  from i have "sql_name interval \<noteq> [] \<and> last (sql_name interval) \<in> {CHR ''m'', CHR ''h'', CHR ''d'', CHR ''w''}"
    by (auto simp: db_intervals_def sql_name_def ascii_lower_def)
  then show ?thesis unfolding k sql_name_append by simp
qed

lemma status_not_coin_table: "''data_collection_status'' \<notin> sql_name ` set coin_table_names"
  using coin_table_name_last[of "''data_collection_status''"] by auto

lemma btc_1m: "''btcusdt_1m'' \<in> sql_name ` set coin_table_names"
proof -
  have "''BTCUSDT'' @ ''_'' @ ''1m'' \<in> set coin_table_names"
    by (rule coin_table_name_mem) (simp_all add: coins_def db_intervals_def)
  then have "sql_name (''BTCUSDT'' @ ''_'' @ ''1m'') \<in> sql_name ` set coin_table_names"
    by (rule imageI)
  then show ?thesis by (simp add: sql_name_def ascii_lower_def)
qed

lemma insert_or_replace_Inr:
  "insert_or_replace db now tn x = Inr db' \<longleftrightarrow>
     (\<exists>rows seq. db (sql_name tn) = Some (CoinTable rows seq) \<and> complete x \<and>
        db' = db(sql_name tn \<mapsto> CoinTable
                   (filter (\<lambda>r. timestamp_col r \<noteq> timestamp x) rows @
                    [\<lparr>id_col = seq + 1, timestamp_col = timestamp x,
                      open_price = the (open' x), high_price = the (high x),
                      low_price = the (low x), close_price = the (close x),
                      volume_col = the (volume x), created_at = now\<rparr>])
                   (seq + 1)))"
  by (auto simp: insert_or_replace_def complete_def split: option.splits table.splits)

lemma candle_values_filter:
  "map candle_values (filter (\<lambda>r. timestamp_col r \<noteq> t) rows) =
     filter (\<lambda>v. fst v \<noteq> t) (map candle_values rows)"
  by (induction rows) (auto simp: candle_values_def)

lemma insert_all_Inr:
  "insert_all db now tn data = Inr db' \<Longrightarrow> db (sql_name tn) = Some (CoinTable rows seq) \<Longrightarrow>
     \<exists>rows' seq'. db' = db(sql_name tn \<mapsto> CoinTable rows' seq') \<and>
        map candle_values rows' = fold replace_values data (map candle_values rows)"
proof (induction data arbitrary: db rows seq)
  case Nil
  then show ?case by (auto intro!: exI[of _ rows] exI[of _ seq])
next
  case (Cons x xs)
  from Cons.prems obtain db1 where
    s1: "insert_or_replace db now tn x = Inr db1" and s2: "insert_all db1 now tn xs = Inr db'"
    by (auto split: sum.splits)
  let ?rows1 = "filter (\<lambda>r. timestamp_col r \<noteq> timestamp x) rows @
                    [\<lparr>id_col = seq + 1, timestamp_col = timestamp x,
                      open_price = the (open' x), high_price = the (high x),
                      low_price = the (low x), close_price = the (close x),
                      volume_col = the (volume x), created_at = now\<rparr>]"
  from s1 Cons.prems(2) have db1: "db1 = db(sql_name tn \<mapsto> CoinTable ?rows1 (seq + 1))"
    by (auto simp: insert_or_replace_Inr)
  then have "db1 (sql_name tn) = Some (CoinTable ?rows1 (seq + 1))" by simp
  from Cons.IH[OF s2 this] obtain rows' seq' where
    r: "db' = db1(sql_name tn \<mapsto> CoinTable rows' seq')"
       "map candle_values rows' = fold replace_values xs (map candle_values ?rows1)"
    by blast
  have "map candle_values ?rows1 = replace_values x (map candle_values rows)"
    by (simp add: replace_values_def candle_values_filter) (simp add: candle_values_def item_values_def)
  with r db1 show ?case by auto
qed

lemma insert_all_succeeds_iff:
  "(\<exists>db'. insert_all db now tn data = Inr db') \<longleftrightarrow>
     (data = [] \<or> (\<exists>rows seq. db (sql_name tn) = Some (CoinTable rows seq)) \<and> (\<forall>x\<in>set data. complete x))"
proof (induction data arbitrary: db)
  case Nil
  then show ?case by simp
next
  case (Cons x xs)
  show ?case
  proof (cases "insert_or_replace db now tn x")
    case (Inl e)
    then have "\<not> ((\<exists>rows seq. db (sql_name tn) = Some (CoinTable rows seq)) \<and> complete x)"
      by (auto simp: insert_or_replace_def complete_def split: option.splits table.splits if_splits)
    with Inl show ?thesis by auto
  next
    case (Inr db1)
    then obtain rows seq rows1 seq1 where
      a: "db (sql_name tn) = Some (CoinTable rows seq)" "complete x"
         "db1 = db(sql_name tn \<mapsto> CoinTable rows1 seq1)"
      unfolding insert_or_replace_Inr by blast
    have b: "\<exists>rows seq. db1 (sql_name tn) = Some (CoinTable rows seq)"
      using a(3) by simp
    have "(\<exists>db'. insert_all db now tn (x # xs) = Inr db') \<longleftrightarrow>
          (\<exists>db'. insert_all db1 now tn xs = Inr db')"
      using Inr by simp
    also have "\<dots> \<longleftrightarrow> (\<forall>x\<in>set xs. complete x)"
      using Cons.IH[of db1] b by (cases xs) auto
    finally show ?thesis using a(1,2) by auto
  qed
qed

lemma fold_replace_values_split:
  "fold replace_values data vs =
     filter (\<lambda>v. fst v \<notin> timestamp ` set data) vs @ fold replace_values data []"
proof (induction data arbitrary: vs)
  case Nil
  then show ?case by simp
next
  case (Cons x xs)
  have "fold replace_values (x # xs) vs = fold replace_values xs (replace_values x vs)" by simp
  also have "\<dots> = filter (\<lambda>v. fst v \<notin> timestamp ` set xs) (replace_values x vs) @ fold replace_values xs []"
    by (rule Cons.IH)
  also have "filter (\<lambda>v. fst v \<notin> timestamp ` set xs) (replace_values x vs) =
     filter (\<lambda>v. fst v \<notin> timestamp ` set (x # xs)) vs @
     filter (\<lambda>v. fst v \<notin> timestamp ` set xs) [item_values x]"
    by (auto simp: replace_values_def intro: filter_cong)
  also have "(filter (\<lambda>v. fst v \<notin> timestamp ` set (x # xs)) vs @
     filter (\<lambda>v. fst v \<notin> timestamp ` set xs) [item_values x]) @ fold replace_values xs [] =
     filter (\<lambda>v. fst v \<notin> timestamp ` set (x # xs)) vs @ fold replace_values (x # xs) []"
  proof -
    have e: "replace_values x [] = [item_values x]" by (simp add: replace_values_def)
    have "fold replace_values (x # xs) [] = fold replace_values xs [item_values x]"
      by (simp add: e)
    also have "\<dots> = filter (\<lambda>v. fst v \<notin> timestamp ` set xs) [item_values x] @
        fold replace_values xs []"
      by (rule Cons.IH)
    finally show ?thesis by simp
  qed
  finally show ?case .
qed

lemma fold_replace_values_keys:
  "fst ` set (fold replace_values data vs) = fst ` set vs \<union> timestamp ` set data"
  by (induction data arbitrary: vs) (auto simp: replace_values_def item_values_def image_iff)

lemma fold_replace_values_idem:
  "fold replace_values data (fold replace_values data vs) = fold replace_values data vs"
proof -
  let ?T = "timestamp ` set data"
  have k: "fst ` set (fold replace_values data []) = ?T"
    by (simp add: fold_replace_values_keys)
  have "filter (\<lambda>v. fst v \<notin> ?T) (fold replace_values data []) = []"
    using k by (auto simp: filter_empty_conv)
  then have "filter (\<lambda>v. fst v \<notin> ?T) (fold replace_values data vs) = filter (\<lambda>v. fst v \<notin> ?T) vs"
    by (subst fold_replace_values_split) simp
  then show ?thesis
    by (subst fold_replace_values_split) (simp add: fold_replace_values_split[of data vs, symmetric])
qed

lemma fold_replace_values_distinct:
  "distinct (map fst vs) \<Longrightarrow> distinct (map fst (fold replace_values data vs))"
proof (induction data arbitrary: vs)
  case Nil
  then show ?case by simp
next
  case (Cons x xs)
  have "distinct (map fst (replace_values x vs))"
    using Cons.prems by (auto simp: replace_values_def item_values_def distinct_map_filter)
  from Cons.IH[OF this] show ?case by simp
qed

lemma find_append_iff:
  "find P (xs @ ys) = (case find P xs of None \<Rightarrow> find P ys | Some x \<Rightarrow> Some x)"
  by (induction xs) auto

lemma find_filter_not: "find P (filter (\<lambda>r. \<not> P r) xs) = None"
  by (induction xs) auto

lemma replace_status_Inr:
  "replace_status db now s i ts = Inr db' \<longleftrightarrow>
     (\<exists>rows seq. db (sql_name ''data_collection_status'') = Some (StatusTable rows seq) \<and>
        db' = db(sql_name ''data_collection_status'' \<mapsto>
            StatusTable
              (filter (\<lambda>r. \<not> (st_symbol r = s \<and> st_interval r = i)) rows @
               [\<lparr>st_id = seq + 1, st_symbol = s, st_interval = i,
                 last_collected_timestamp = Some ts, last_updated = now\<rparr>])
              (seq + 1)))"
  by (auto simp: replace_status_def split: option.splits table.splits)

lemma replace_status_get_last:
  "replace_status db now s i ts = Inr db' \<Longrightarrow> get_last_collected_timestamp db' s i = Some ts"
proof -
  assume "replace_status db now s i ts = Inr db'"
  then obtain rows seq where
    a: "db' = db(sql_name ''data_collection_status'' \<mapsto>
            StatusTable
              (filter (\<lambda>r. \<not> (st_symbol r = s \<and> st_interval r = i)) rows @
               [\<lparr>st_id = seq + 1, st_symbol = s, st_interval = i,
                 last_collected_timestamp = Some ts, last_updated = now\<rparr>])
              (seq + 1))"
    unfolding replace_status_Inr by blast
  have "find (\<lambda>r. st_symbol r = s \<and> st_interval r = i)
          (filter (\<lambda>r. \<not> (st_symbol r = s \<and> st_interval r = i)) rows) = None"
    by (rule find_filter_not)
  then show ?thesis
    unfolding a get_last_collected_timestamp_def by (simp add: find_append_iff)
qed

lemma save_Inr:
  assumes "save_price_data_to_coin_table db now s i data = Inr db'" and "data \<noteq> []"
  shows "\<exists>rows seq rows' seq' srows sseq srows' sseq'.
     db (sql_name (s @ ''_'' @ i)) = Some (CoinTable rows seq) \<and>
     db (sql_name ''data_collection_status'') = Some (StatusTable srows sseq) \<and>
     db' = db(sql_name (s @ ''_'' @ i) \<mapsto> CoinTable rows' seq',
              sql_name ''data_collection_status'' \<mapsto> StatusTable srows' sseq') \<and>
     map candle_values rows' = fold replace_values data (map candle_values rows) \<and>
     get_last_collected_timestamp db' s i = Some (timestamp (last data))"
proof -
  let ?K = "sql_name (s @ ''_'' @ i)" and ?S = "sql_name ''data_collection_status''"
  from assms obtain db1 where
    a: "insert_all db now (s @ ''_'' @ i) data = Inr db1"
    and b: "replace_status db1 now s i (timestamp (last data)) = Inr db'"
    by (auto simp: save_price_data_to_coin_table_def Let_def split: sum.splits)
  from a assms(2) obtain rows seq where c: "db ?K = Some (CoinTable rows seq)"
    using insert_all_succeeds_iff[of db now "s @ ''_'' @ i" data] by blast
  from insert_all_Inr[OF a c] obtain rows' seq' where
    d: "db1 = db(?K \<mapsto> CoinTable rows' seq')"
       "map candle_values rows' = fold replace_values data (map candle_values rows)"
    by blast
  from b obtain srows1 sseq1 where
    e: "db1 ?S = Some (StatusTable srows1 sseq1)"
    and f: "\<exists>srows' sseq'. db' = db1(?S \<mapsto> StatusTable srows' sseq')"
    unfolding replace_status_Inr by blast
  from e d(1) have ne: "?S \<noteq> ?K" by (auto split: if_splits)
  with e d(1) have g: "db ?S = Some (StatusTable srows1 sseq1)" by (auto split: if_splits)
  from f obtain srows' sseq' where h: "db' = db1(?S \<mapsto> StatusTable srows' sseq')" by blast
  from replace_status_get_last[OF b] c g d h show ?thesis by blast
qed

lemma save_succeeds_iff:
  "(\<exists>db'. save_price_data_to_coin_table db now s i data = Inr db') \<longleftrightarrow>
     (data = [] \<or>
      (\<exists>rows seq. db (sql_name (s @ ''_'' @ i)) = Some (CoinTable rows seq)) \<and>
      (\<forall>x\<in>set data. complete x) \<and>
      (\<exists>srows sseq. db (sql_name ''data_collection_status'') = Some (StatusTable srows sseq)))"
proof (cases "data = []")
  case True
  then show ?thesis by (simp add: save_price_data_to_coin_table_def)
next
  case False
  let ?K = "sql_name (s @ ''_'' @ i)" and ?S = "sql_name ''data_collection_status''"
  show ?thesis
  proof
    assume "\<exists>db'. save_price_data_to_coin_table db now s i data = Inr db'"
    then obtain db' where r: "save_price_data_to_coin_table db now s i data = Inr db'" ..
    then have "\<exists>db1. insert_all db now (s @ ''_'' @ i) data = Inr db1"
      by (auto simp: save_price_data_to_coin_table_def Let_def split: sum.splits)
    with insert_all_succeeds_iff[of db now "s @ ''_'' @ i" data] False
    have "\<forall>x\<in>set data. complete x" by blast
    with save_Inr[OF r False] show "data = [] \<or>
      (\<exists>rows seq. db ?K = Some (CoinTable rows seq)) \<and>
      (\<forall>x\<in>set data. complete x) \<and>
      (\<exists>srows sseq. db ?S = Some (StatusTable srows sseq))" by blast
  next
    assume "data = [] \<or>
      (\<exists>rows seq. db ?K = Some (CoinTable rows seq)) \<and>
      (\<forall>x\<in>set data. complete x) \<and>
      (\<exists>srows sseq. db ?S = Some (StatusTable srows sseq))"
    with False obtain rows seq srows sseq where
      c: "db ?K = Some (CoinTable rows seq)" and ok: "\<forall>x\<in>set data. complete x"
      and st: "db ?S = Some (StatusTable srows sseq)" by blast
    from c ok obtain db1 where a: "insert_all db now (s @ ''_'' @ i) data = Inr db1"
      using insert_all_succeeds_iff[of db now "s @ ''_'' @ i" data] by blast
    from insert_all_Inr[OF a c] obtain rows' seq' where
      d: "db1 = db(?K \<mapsto> CoinTable rows' seq')" by blast
    from c st have "?S \<noteq> ?K" by auto
    with d st have "db1 ?S = Some (StatusTable srows sseq)" by simp
    then have "\<exists>db'. replace_status db1 now s i (timestamp (last data)) = Inr db'"
      by (simp add: replace_status_def)
    with a False show "\<exists>db'. save_price_data_to_coin_table db now s i data = Inr db'"
      by (simp add: save_price_data_to_coin_table_def)
  qed
qed

lemma save_fails_unchanged:
  "\<not> (\<exists>db'. save_price_data_to_coin_table db now s i data = Inr db') \<Longrightarrow>
     db_after db (save_price_data_to_coin_table db now s i data) = db"
  by (cases "save_price_data_to_coin_table db now s i data") (auto simp: db_after_def)

lemma map_timestamp_col: "map timestamp_col rows = map fst (map candle_values rows)"
  by (simp add: candle_values_def o_def)

text \<open>
  Claim C1: storing the same batch twice leaves the table of the (symbol, interval) as
  storing it once does. \<open>db1\<close> is the database after the first call and \<open>db2\<close> after the
  second (made at a later clock reading); a call that raises leaves the database as it was.
  The candle columns of the table, read in rowid order, are the same list after the second
  call, so the row count is the same and no value changed; the recorded last timestamp is
  the same; and a table with at most one row per timestamp keeps that property. (The
  surrogate \<open>id\<close> and \<open>created_at\<close> of a replaced row are new: they are not candle values.)
\<close>

theorem storing_twice_equals_storing_once:
  "(let db1 = db_after db (save_price_data_to_coin_table db now s i data);
        db2 = db_after db1 (save_price_data_to_coin_table db1 now' s i data);
        table_name = s @ ''_'' @ i
    in map candle_values (coin_rows db2 table_name) = map candle_values (coin_rows db1 table_name)
       \<and> length (coin_rows db2 table_name) = length (coin_rows db1 table_name)
       \<and> get_last_collected_timestamp db2 s i = get_last_collected_timestamp db1 s i
       \<and> (distinct (map timestamp_col (coin_rows db table_name))
            \<longrightarrow> distinct (map timestamp_col (coin_rows db2 table_name))))"
proof (cases "\<exists>db'. save_price_data_to_coin_table db now s i data = Inr db'")
  case False
  then have 1: "db_after db (save_price_data_to_coin_table db now s i data) = db"
    by (rule save_fails_unchanged)
  from False have "\<not> (\<exists>db'. save_price_data_to_coin_table db now' s i data = Inr db')"
    unfolding save_succeeds_iff .
  then have "db_after db (save_price_data_to_coin_table db now' s i data) = db"
    by (rule save_fails_unchanged)
  with 1 show ?thesis by (simp add: Let_def)
next
  case True
  then obtain db1 where r1: "save_price_data_to_coin_table db now s i data = Inr db1" ..
  show ?thesis
  proof (cases "data = []")
    case True
    then show ?thesis
      by (simp add: save_price_data_to_coin_table_def db_after_def Let_def)
  next
    case False
    let ?K = "sql_name (s @ ''_'' @ i)" and ?S = "sql_name ''data_collection_status''"
    from save_Inr[OF r1 False] obtain rows seq rows1 seq1 srows sseq srows1 sseq1 where
      a: "db ?K = Some (CoinTable rows seq)" "db ?S = Some (StatusTable srows sseq)"
         "db1 = db(?K \<mapsto> CoinTable rows1 seq1, ?S \<mapsto> StatusTable srows1 sseq1)"
         "map candle_values rows1 = fold replace_values data (map candle_values rows)"
         "get_last_collected_timestamp db1 s i = Some (timestamp (last data))"
      by blast
    from a(1,2) have ne: "?K \<noteq> ?S" by auto
    with a(3) have k1: "db1 ?K = Some (CoinTable rows1 seq1)"
      and s1: "db1 ?S = Some (StatusTable srows1 sseq1)" by auto
    from r1 False have ok: "\<forall>x\<in>set data. complete x"
      using save_succeeds_iff[of db now s i data] by blast
    with k1 s1 have "\<exists>db2. save_price_data_to_coin_table db1 now' s i data = Inr db2"
      unfolding save_succeeds_iff by blast
    then obtain db2 where r2: "save_price_data_to_coin_table db1 now' s i data = Inr db2" ..
    from save_Inr[OF r2 False] k1 obtain rows2 seq2 srows2 sseq2 where
      b: "db2 = db1(?K \<mapsto> CoinTable rows2 seq2, ?S \<mapsto> StatusTable srows2 sseq2)"
         "map candle_values rows2 = fold replace_values data (map candle_values rows1)"
         "get_last_collected_timestamp db2 s i = Some (timestamp (last data))"
      by auto
    from b(1) ne have k2: "db2 ?K = Some (CoinTable rows2 seq2)" by auto
    have c0: "coin_rows db (s @ ''_'' @ i) = rows" using a(1) by (simp add: coin_rows_def)
    have c1: "coin_rows db1 (s @ ''_'' @ i) = rows1" using k1 by (simp add: coin_rows_def)
    have c2: "coin_rows db2 (s @ ''_'' @ i) = rows2" using k2 by (simp add: coin_rows_def)
    have eq: "map candle_values rows2 = map candle_values rows1"
      using b(2) a(4) by (simp add: fold_replace_values_idem)
    then have len: "length rows2 = length rows1" by (rule map_eq_imp_length_eq)
    have dist: "distinct (map timestamp_col rows) \<longrightarrow> distinct (map timestamp_col rows2)"
      unfolding map_timestamp_col eq a(4) by (simp add: fold_replace_values_distinct)
    from r1 r2 c0 c1 c2 eq len dist a(5) b(3) show ?thesis
      by (simp add: db_after_def Let_def)
  qed
qed

theorem storing_twice_witness:
  "distinct (map timestamp_col (coin_rows (init_database Map.empty :: nat database) ''BTCUSDT_1m''))
   \<and> map candle_values (coin_rows
        (db_after (db_after (init_database Map.empty)
            (save_price_data_to_coin_table (init_database Map.empty) 7 ''BTCUSDT'' ''1m''
               [example_candle 5 1, example_candle 3 2, example_candle 5 4]))
          (save_price_data_to_coin_table
            (db_after (init_database Map.empty)
              (save_price_data_to_coin_table (init_database Map.empty) 7 ''BTCUSDT'' ''1m''
                 [example_candle 5 1, example_candle 3 2, example_candle 5 4]))
            9 ''BTCUSDT'' ''1m'' [example_candle 5 1, example_candle 3 2, example_candle 5 4]))
        ''BTCUSDT_1m'')
     = [(3, 2, 2, 2, 2, 2), (5, 4, 4, 4, 4, 4)]"
proof -
  have k: "sql_name ''BTCUSDT_1m'' = ''btcusdt_1m''"
    "sql_name ''data_collection_status'' = ''data_collection_status''"
    by (simp_all add: sql_name_def ascii_lower_def)
  have once: "map candle_values (coin_rows
        (db_after (init_database Map.empty)
            (save_price_data_to_coin_table (init_database Map.empty) 7 ''BTCUSDT'' ''1m''
               [example_candle 5 1, example_candle 3 2, example_candle 5 4])) ''BTCUSDT_1m'')
     = [(3, 2, 2, 2, 2, 2), (5, 4, 4, 4, 4, 4)]"
    by (simp add: save_price_data_to_coin_table_def insert_or_replace_def replace_status_def
        db_after_def coin_rows_def candle_values_def example_candle_def k
        init_database_empty_lookup btc_1m status_not_coin_table)
  have d: "distinct (map timestamp_col (coin_rows (init_database Map.empty :: nat database) ''BTCUSDT_1m''))"
    by (simp add: coin_rows_def k init_database_empty_lookup btc_1m)
  from storing_twice_equals_storing_once
    [of "init_database Map.empty :: nat database" 7 "''BTCUSDT''" "''1m''"
        "[example_candle 5 1, example_candle 3 2, example_candle 5 4]" 9]
    once d
  show ?thesis by (simp add: Let_def)
qed

lemma sorted_last_Max:
  fixes xs :: "int list"
  assumes "xs \<noteq> []" and "sorted xs"
  shows "last xs = Max (set xs)"
proof -
  from assms(1) have e: "xs = butlast xs @ [last xs]" by simp
  with assms(2) have "sorted (butlast xs @ [last xs])" by simp
  then have "\<forall>y\<in>set (butlast xs). y \<le> last xs" by (simp add: sorted_append)
  then have "\<forall>y\<in>set xs. y \<le> last xs" by (subst (1) e) auto
  moreover have "last xs \<in> set xs" using assms(1) by simp
  ultimately show ?thesis by (intro Max_eqI[symmetric]) auto
qed

lemma timestamp_col_image:
  "timestamp_col ` set rows = fst ` set (map candle_values rows)"
  by (auto simp: candle_values_def image_iff)

lemma init_keys:
  "sql_name ''BTCUSDT_1m'' = ''btcusdt_1m''"
  "sql_name ''BTCUSDT_1M'' = ''btcusdt_1m''"
  "sql_name ''BTCUSDT_1month'' = ''btcusdt_1month''"
  "sql_name ''data_collection_status'' = ''data_collection_status''"
  by (simp_all add: sql_name_def ascii_lower_def)

text \<open>
  Claim C5, as stated: after a non-empty batch is stored, the status row holds the maximum
  timestamp of the batch. The code records the timestamp of the last record of the batch:
  for the batch with timestamps 5, 3 the status row holds 3, and the maximum is 5.
\<close>

theorem status_row_is_last_not_max:
  "get_last_collected_timestamp
     (db_after (init_database Map.empty)
        (save_price_data_to_coin_table (init_database Map.empty) 7 ''BTCUSDT'' ''1m''
           [example_candle 5 1, example_candle 3 2])) ''BTCUSDT'' ''1m'' = Some 3
   \<and> Max (timestamp ` set [example_candle 5 1, example_candle 3 2]) = 5"
  by (simp add: save_price_data_to_coin_table_def insert_or_replace_def replace_status_def
      db_after_def get_last_collected_timestamp_def example_candle_def init_keys
      init_database_empty_lookup btc_1m status_not_coin_table)

text \<open>
  Claim C5, amended: after a non-empty batch is stored, the status row of the
  (symbol, interval) holds the timestamp of the last record of the batch, which is the
  maximum timestamp of the batch when the batch is in ascending order of timestamp (as the
  fetchers deliver it). Candle rows and status row are written in one transaction: when the
  call raises, the database is as before the call (neither is visible); when it returns,
  the committed database holds a row for every timestamp of the batch and the status row.
\<close>

theorem status_row_follows_stored_batch:
  "data \<noteq> [] \<Longrightarrow>
     (case save_price_data_to_coin_table db now s i data of
        Inl e \<Rightarrow> db_after db (save_price_data_to_coin_table db now s i data) = db
      | Inr db' \<Rightarrow>
          db_after db (save_price_data_to_coin_table db now s i data) = db'
          \<and> get_last_collected_timestamp db' s i = Some (timestamp (last data))
          \<and> timestamp ` set data \<subseteq> timestamp_col ` set (coin_rows db' (s @ ''_'' @ i))
          \<and> (sorted (map timestamp data)
               \<longrightarrow> timestamp (last data) = Max (timestamp ` set data)))"
proof (cases "save_price_data_to_coin_table db now s i data")
  case (Inl e)
  then show ?thesis by (simp add: db_after_def)
next
  case (Inr db')
  assume ne: "data \<noteq> []"
  let ?K = "sql_name (s @ ''_'' @ i)" and ?S = "sql_name ''data_collection_status''"
  from save_Inr[OF Inr ne] obtain rows seq rows1 seq1 srows sseq srows1 sseq1 where
    a: "db ?K = Some (CoinTable rows seq)" "db ?S = Some (StatusTable srows sseq)"
       "db' = db(?K \<mapsto> CoinTable rows1 seq1, ?S \<mapsto> StatusTable srows1 sseq1)"
       "map candle_values rows1 = fold replace_values data (map candle_values rows)"
       "get_last_collected_timestamp db' s i = Some (timestamp (last data))"
    by blast
  from a(1,2) have "?K \<noteq> ?S" by auto
  with a(3) have "coin_rows db' (s @ ''_'' @ i) = rows1" by (simp add: coin_rows_def)
  moreover have "timestamp ` set data \<subseteq> timestamp_col ` set rows1"
    unfolding timestamp_col_image a(4) fold_replace_values_keys by simp
  moreover have "sorted (map timestamp data) \<longrightarrow> timestamp (last data) = Max (timestamp ` set data)"
    using sorted_last_Max[of "map timestamp data"] ne by (simp add: last_map)
  ultimately show ?thesis using Inr a(5) by (simp add: db_after_def)
qed

theorem status_row_follows_stored_batch_witness:
  "[example_candle 3 2, example_candle 5 4] \<noteq> []
   \<and> sorted (map timestamp [example_candle 3 2, example_candle 5 4])
   \<and> get_last_collected_timestamp
       (db_after (init_database Map.empty)
          (save_price_data_to_coin_table (init_database Map.empty) 7 ''BTCUSDT'' ''1m''
             [example_candle 3 2, example_candle 5 4])) ''BTCUSDT'' ''1m''
       = Some (Max (timestamp ` set [example_candle 3 2, example_candle 5 4]))"
proof -
  have ne: "[example_candle 3 2, example_candle 5 4] \<noteq> []" by simp
  have ok: "\<not> isl (save_price_data_to_coin_table (init_database Map.empty) 7 ''BTCUSDT'' ''1m''
             [example_candle 3 2, example_candle 5 4])"
    by (simp add: save_price_data_to_coin_table_def insert_or_replace_def replace_status_def
      example_candle_def init_keys init_database_empty_lookup btc_1m status_not_coin_table)
  have so: "sorted (map timestamp [example_candle 3 2, example_candle 5 4])"
    by (simp add: example_candle_def)
  from status_row_follows_stored_batch[OF ne, of "init_database Map.empty" 7 "''BTCUSDT''" "''1m''"]
    ok so ne
  show ?thesis
    by (cases "save_price_data_to_coin_table (init_database Map.empty) 7 ''BTCUSDT'' ''1m''
             [example_candle 3 2, example_candle 5 4]") (simp_all add: db_after_def)
qed

text \<open>
  Claim C9: a store with interval \<open>1M\<close>, the monthly interval of the collectors, cannot
  persist monthly candles, since \<open>init_database\<close> names the monthly table
  \<open>{symbol}_1month\<close>; the claim has the store raise. The code does not raise: SQLite
  finds the one-minute table \<open>BTCUSDT_1m\<close> under the name \<open>BTCUSDT_1M\<close>, the store
  commits the monthly candle there, and the monthly table stays empty.
\<close>

theorem store_1M_lands_in_one_minute_table:
  "''1M'' \<in> set collector_intervals
   \<and> ''BTCUSDT'' \<in> set coins
   \<and> ''BTCUSDT_1month'' \<in> set coin_table_names
   \<and> \<not> isl (save_price_data_to_coin_table (init_database Map.empty) 0 ''BTCUSDT'' ''1M''
            [example_candle 5 1])
   \<and> map candle_values (coin_rows (db_after (init_database Map.empty)
        (save_price_data_to_coin_table (init_database Map.empty) 0 ''BTCUSDT'' ''1M''
           [example_candle 5 1])) ''BTCUSDT_1m'')
     = [(5, 1, 1, 1, 1, 1)]
   \<and> coin_rows (db_after (init_database Map.empty)
        (save_price_data_to_coin_table (init_database Map.empty) 0 ''BTCUSDT'' ''1M''
           [example_candle 5 1])) ''BTCUSDT_1month'' = []"
proof -
  have m: "''BTCUSDT'' @ ''_'' @ ''1month'' \<in> set coin_table_names"
    by (rule coin_table_name_mem) (simp_all add: coins_def db_intervals_def)
  then have "sql_name (''BTCUSDT'' @ ''_'' @ ''1month'') \<in> sql_name ` set coin_table_names"
    by (rule imageI)
  then have month: "''btcusdt_1month'' \<in> sql_name ` set coin_table_names"
    by (simp add: sql_name_def ascii_lower_def)
  have 1: "''1M'' \<in> set collector_intervals" by (simp add: collector_intervals_def)
  have 2: "''BTCUSDT'' \<in> set coins" by (simp add: coins_def)
  have 3: "\<not> isl (save_price_data_to_coin_table (init_database Map.empty) 0 ''BTCUSDT'' ''1M''
            [example_candle 5 1])
   \<and> map candle_values (coin_rows (db_after (init_database Map.empty)
        (save_price_data_to_coin_table (init_database Map.empty) 0 ''BTCUSDT'' ''1M''
           [example_candle 5 1])) ''BTCUSDT_1m'')
     = [(5, 1, 1, 1, 1, 1)]
   \<and> coin_rows (db_after (init_database Map.empty)
        (save_price_data_to_coin_table (init_database Map.empty) 0 ''BTCUSDT'' ''1M''
           [example_candle 5 1])) ''BTCUSDT_1month'' = []"
    by (simp add: save_price_data_to_coin_table_def insert_or_replace_def replace_status_def
        db_after_def coin_rows_def candle_values_def example_candle_def init_keys
        init_database_empty_lookup btc_1m status_not_coin_table month)
  from 1 2 3 m show ?thesis by simp
qed

subsection \<open>Gap detection\<close>

text \<open>
  What \<open>get_missing_data_period\<close> returns for a recorded timestamp other than 0, and for
  no recorded timestamp.
\<close>

lemma missing_period_after_timestamp:
  "get_last_collected_timestamp db s i = Some T \<Longrightarrow> T \<noteq> 0 \<Longrightarrow>
     get_missing_data_period db now now' s i = Some \<lparr>mp_start_time = T + 1, mp_end_time = now\<rparr>"
  by (simp add: get_missing_data_period_def)

lemma missing_period_without_timestamp:
  "get_last_collected_timestamp db s i = None \<Longrightarrow>
     get_missing_data_period db now now' s i =
       Some \<lparr>mp_start_time = now' - days_ms 1095, mp_end_time = now\<rparr>"
  by (simp add: get_missing_data_period_def)

text \<open>
  Claim C2: with \<open>last_collected_timestamp = T\<close> recorded, the missing range is
  \<open>[T + 1, now]\<close>. The code tests \<open>if last_timestamp:\<close>, which is false for \<open>T = 0\<close>. With a
  candle of timestamp 0 stored, the status row holds 0, and at clock reading
  1700000000000 the function returns the 1095-day window starting at 1605392000000
  instead of the range starting at 1.
\<close>

theorem missing_period_treats_zero_as_absent:
  "get_last_collected_timestamp
     (db_after (init_database Map.empty)
        (save_price_data_to_coin_table (init_database Map.empty) 7 ''BTCUSDT'' ''1m''
           [example_candle 0 1])) ''BTCUSDT'' ''1m'' = Some 0
   \<and> get_missing_data_period
     (db_after (init_database Map.empty)
        (save_price_data_to_coin_table (init_database Map.empty) 7 ''BTCUSDT'' ''1m''
           [example_candle 0 1])) 1700000000000 1700000000000 ''BTCUSDT'' ''1m''
     = Some \<lparr>mp_start_time = 1605392000000, mp_end_time = 1700000000000\<rparr>"
  by (simp add: save_price_data_to_coin_table_def insert_or_replace_def replace_status_def
      db_after_def get_last_collected_timestamp_def get_missing_data_period_def days_ms_def
      example_candle_def init_keys init_database_empty_lookup btc_1m status_not_coin_table)

subsection \<open>Gap top-up\<close>

lemma no_batch_method:
  "getattr HistoricalDataCollector_attributes ''get_historical_data_batch''
     = Inl (AttributeError ''get_historical_data_batch'')"
  by (simp add: getattr_def HistoricalDataCollector_attributes_def)

text \<open>
  Claim C7: the gap top-up path issues no API call when the missing range is shorter than
  one bucket of the interval, in particular right after a successful completion. As the
  code stands it issues no API call in any state: a range shorter than 60000 ms returns
  at once, and for a longer one the call \<open>self.get_historical_data_batch\<close> raises
  \<open>AttributeError\<close> (the method belongs to the other collector class), which the enclosing
  \<open>try\<close> turns into an empty frame. No event occurs and the database is unchanged.
\<close>

theorem gap_top_up_issues_no_request:
  "collect_missing_data fuel api db now now' db_now symbol interval = ([], Some [], db)"
  by (simp add: collect_missing_data_def no_batch_method Let_def split: option.splits)

subsection \<open>The sequential fetch loop\<close>

lemma seq_requests_0:
  "requests_of (fst (get_historical_data_loop 0 api s iv e n cur acc)) = []"
  by simp

lemma seq_requests_Suc:
  "requests_of (fst (get_historical_data_loop (Suc fuel) api s iv e n cur acc)) =
     (if cur < e
      then \<lparr>r_symbol = s, r_interval = iv, startTime = cur, endTime = e, limit = 1000\<rparr> #
        (case api n \<lparr>r_symbol = s, r_interval = iv, startTime = cur, endTime = e, limit = 1000\<rparr> of
           Klines data \<Rightarrow>
             if data = [] then []
             else (case entry_close_time (last data) of
                     None \<Rightarrow> []
                   | Some c \<Rightarrow>
                       requests_of (fst (get_historical_data_loop fuel api s iv e (Suc n)
                          (c + 1) (acc @ data))))
         | _ \<Rightarrow> [])
      else [])"
  by (simp add: Let_def split_beta split: response.splits option.splits)

lemma seq_result_Suc:
  "snd (get_historical_data_loop (Suc fuel) api s iv e n cur acc) =
     (if cur < e
      then (case api n \<lparr>r_symbol = s, r_interval = iv, startTime = cur, endTime = e, limit = 1000\<rparr> of
           Klines data \<Rightarrow>
             if data = [] then Some (Inr acc)
             else (case entry_close_time (last data) of
                     None \<Rightarrow> Some (Inl ValueError)
                   | Some c \<Rightarrow>
                       snd (get_historical_data_loop fuel api s iv e (Suc n) (c + 1) (acc @ data)))
         | _ \<Rightarrow> Some (Inl RequestException))
      else Some (Inr acc))"
  by (simp add: Let_def split_beta split: response.splits option.splits)

lemma seq_requests_shape:
  "r \<in> set (requests_of (fst (get_historical_data_loop fuel api s iv e n cur acc))) \<Longrightarrow>
     r_symbol r = s \<and> r_interval r = iv \<and> endTime r = e \<and> limit r = 1000 \<and> startTime r < e"
proof (induction fuel arbitrary: n cur acc)
  case 0
  then show ?case by simp
next
  case (Suc fuel)
  then show ?case
    unfolding seq_requests_Suc by (auto split: if_splits response.splits option.splits)
qed

lemma seq_requests_first:
  "requests_of (fst (get_historical_data_loop fuel api s iv e n cur acc)) \<noteq> [] \<Longrightarrow>
     startTime (requests_of (fst (get_historical_data_loop fuel api s iv e n cur acc)) ! 0) = cur"
  by (cases fuel) (auto simp: seq_requests_0 seq_requests_Suc simp del: get_historical_data_loop.simps
      split: if_splits)

lemma seq_requests_next:
  "Suc j < length (requests_of (fst (get_historical_data_loop fuel api s iv e n cur acc))) \<Longrightarrow>
     \<exists>data c. api (n + j) (requests_of (fst (get_historical_data_loop fuel api s iv e n cur acc)) ! j)
               = Klines data \<and> data \<noteq> [] \<and> entry_close_time (last data) = Some c \<and>
            startTime (requests_of (fst (get_historical_data_loop fuel api s iv e n cur acc)) ! Suc j)
               = c + 1"
proof (induction fuel arbitrary: n cur acc j)
  case 0
  then show ?case by simp
next
  case (Suc fuel)
  let ?p = "\<lparr>r_symbol = s, r_interval = iv, startTime = cur, endTime = e, limit = 1000\<rparr>"
  from Suc.prems have lt: "cur < e"
    unfolding seq_requests_Suc by (auto split: if_splits)
  from Suc.prems lt obtain data c where d: "api n ?p = Klines data" "data \<noteq> []"
    "entry_close_time (last data) = Some c"
    unfolding seq_requests_Suc by (auto split: if_splits response.splits option.splits)
  let ?rest = "requests_of (fst (get_historical_data_loop fuel api s iv e (Suc n)
                    (c + 1) (acc @ data)))"
  have eq: "requests_of (fst (get_historical_data_loop (Suc fuel) api s iv e n cur acc)) = ?p # ?rest"
    unfolding seq_requests_Suc using lt d by simp
  show ?case
  proof (cases j)
    case 0
    with Suc.prems eq have "?rest \<noteq> []" by auto
    from seq_requests_first[OF this] d 0 show ?thesis unfolding eq by simp
  next
    case (Suc j')
    with Suc.prems eq have "Suc j' < length ?rest" by simp
    from Suc.IH[OF this] Suc show ?thesis unfolding eq by simp
  qed
qed

lemma seq_loop_stops:
  "snd (get_historical_data_loop fuel api s iv e n cur acc) \<noteq> None \<Longrightarrow>
     (let reqs = requests_of (fst (get_historical_data_loop fuel api s iv e n cur acc))
      in if reqs = [] then e \<le> cur
         else (case api (n + length reqs - 1) (last reqs) of
                 Klines data \<Rightarrow>
                   data = [] \<or> (case entry_close_time (last data) of
                                  None \<Rightarrow> True | Some c \<Rightarrow> e \<le> c + 1)
               | _ \<Rightarrow> True))"
proof (induction fuel arbitrary: n cur acc)
  case 0
  then show ?case by simp
next
  case (Suc fuel)
  let ?p = "\<lparr>r_symbol = s, r_interval = iv, startTime = cur, endTime = e, limit = 1000\<rparr>"
  show ?case
  proof (cases "cur < e")
    case False
    then show ?thesis unfolding seq_requests_Suc by (simp add: Let_def)
  next
    case True
    show ?thesis
    proof (cases "api n ?p")
      case (Klines data)
      show ?thesis
      proof (cases "data = []")
        case True
        with Klines \<open>cur < e\<close> show ?thesis unfolding seq_requests_Suc by (simp add: Let_def)
      next
        case False
        show ?thesis
        proof (cases "entry_close_time (last data)")
          case None
          with Klines False \<open>cur < e\<close> show ?thesis
            unfolding seq_requests_Suc by (simp add: Let_def)
        next
          case (Some c)
          let ?rest = "requests_of (fst (get_historical_data_loop fuel api s iv e (Suc n)
                    (c + 1) (acc @ data)))"
          have eq: "requests_of (fst (get_historical_data_loop (Suc fuel) api s iv e n cur acc))
                      = ?p # ?rest"
            unfolding seq_requests_Suc using True Klines False Some by simp
          from Suc.prems have "snd (get_historical_data_loop fuel api s iv e (Suc n)
                    (c + 1) (acc @ data)) \<noteq> None"
            unfolding seq_result_Suc using True Klines False Some by simp
          from Suc.IH[OF this] show ?thesis
            unfolding eq using Klines False Some by (auto simp: Let_def split: if_splits)
        qed
      qed
    next
      case (HttpError x)
      with True show ?thesis unfolding seq_requests_Suc by (simp add: Let_def)
    next
      case ConnectionError
      with True show ?thesis unfolding seq_requests_Suc by (simp add: Let_def)
    qed
  qed
qed


subsection \<open>The batch fetch loop\<close>

lemma to_frame_length: "to_frame es = Some df \<Longrightarrow> length df = length es"
  by (induction es arbitrary: df rule: to_frame.induct) auto

lemma to_frame_nonempty: "to_frame es = Some df \<Longrightarrow> es \<noteq> [] \<Longrightarrow> df \<noteq> []"
  using to_frame_length[of es df] by auto

lemma batch_requests_0:
  "requests_of (fst (get_historical_data_batch_loop 0 api s iv e n cur acc)) = []"
  by simp

lemma batch_loop_Suc:
  "get_historical_data_batch_loop (Suc fuel) api s iv e n cur acc =
     (if cur < e
      then (Request (batch_params s iv e cur) #
              (case api n (batch_params s iv e cur) of
                 Klines data \<Rightarrow> if data \<noteq> [] \<and> to_frame data = None then [] else [Sleep 50]
               | _ \<Rightarrow> []) @
              fst (get_historical_data_batch_loop fuel api s iv e (Suc n)
                 (batch_next (api n (batch_params s iv e cur)) (batch_params s iv e cur))
                 (acc @ (if answer_frame (api n (batch_params s iv e cur)) = [] then []
                         else [answer_frame (api n (batch_params s iv e cur))]))),
            snd (get_historical_data_batch_loop fuel api s iv e (Suc n)
                 (batch_next (api n (batch_params s iv e cur)) (batch_params s iv e cur))
                 (acc @ (if answer_frame (api n (batch_params s iv e cur)) = [] then []
                         else [answer_frame (api n (batch_params s iv e cur))]))))
      else ([], Some acc))"
proof (cases "cur < e")
  case False
  then show ?thesis by simp
next
  case True
  show ?thesis
  proof (cases "api n (batch_params s iv e cur)")
    case (Klines data)
    show ?thesis
    proof (cases "data = []")
      case True
      with Klines \<open>cur < e\<close> show ?thesis
        by (simp add: Let_def split_beta batch_params_def batch_next_def answer_frame_def)
    next
      case False
      show ?thesis
      proof (cases "to_frame data")
        case None
        with Klines False \<open>cur < e\<close> show ?thesis
          by (simp add: Let_def split_beta batch_params_def batch_next_def answer_frame_def)
      next
        case (Some df)
        from to_frame_nonempty[OF Some False] have "df \<noteq> []" .
        with Some Klines False \<open>cur < e\<close> show ?thesis
          by (simp add: Let_def split_beta batch_params_def batch_next_def answer_frame_def)
      qed
    qed
  next
    case (HttpError x)
    with True show ?thesis
      by (simp add: Let_def split_beta batch_params_def batch_next_def answer_frame_def)
  next
    case ConnectionError
    with True show ?thesis
      by (simp add: Let_def split_beta batch_params_def batch_next_def answer_frame_def)
  qed
qed

lemma batch_requests_Suc:
  "requests_of (fst (get_historical_data_batch_loop (Suc fuel) api s iv e n cur acc)) =
     (if cur < e
      then batch_params s iv e cur #
        requests_of (fst (get_historical_data_batch_loop fuel api s iv e (Suc n)
           (batch_next (api n (batch_params s iv e cur)) (batch_params s iv e cur))
           (acc @ (if answer_frame (api n (batch_params s iv e cur)) = [] then []
                   else [answer_frame (api n (batch_params s iv e cur))]))))
      else [])"
  unfolding batch_loop_Suc by (simp split: response.splits)

lemma batch_result_Suc:
  "snd (get_historical_data_batch_loop (Suc fuel) api s iv e n cur acc) =
     (if cur < e
      then snd (get_historical_data_batch_loop fuel api s iv e (Suc n)
           (batch_next (api n (batch_params s iv e cur)) (batch_params s iv e cur))
           (acc @ (if answer_frame (api n (batch_params s iv e cur)) = [] then []
                   else [answer_frame (api n (batch_params s iv e cur))])))
      else Some acc)"
  unfolding batch_loop_Suc by simp

lemma batch_requests_shape:
  "r \<in> set (requests_of (fst (get_historical_data_batch_loop fuel api s iv e n cur acc))) \<Longrightarrow>
     r_symbol r = s \<and> r_interval r = iv \<and> limit r = 1000 \<and> startTime r < e \<and>
     endTime r = min (startTime r + calculate_batch_size iv) e"
proof (induction fuel arbitrary: n cur acc)
  case 0
  then show ?case by simp
next
  case (Suc fuel)
  then show ?case
    unfolding batch_requests_Suc by (auto simp: batch_params_def split: if_splits)
qed

lemma batch_requests_first:
  "requests_of (fst (get_historical_data_batch_loop fuel api s iv e n cur acc)) \<noteq> [] \<Longrightarrow>
     startTime (requests_of (fst (get_historical_data_batch_loop fuel api s iv e n cur acc)) ! 0) = cur"
  by (cases fuel)
     (auto simp: batch_requests_0 batch_requests_Suc batch_params_def
        simp del: get_historical_data_batch_loop.simps split: if_splits)

lemma batch_requests_next:
  "Suc j < length (requests_of (fst (get_historical_data_batch_loop fuel api s iv e n cur acc))) \<Longrightarrow>
     startTime (requests_of (fst (get_historical_data_batch_loop fuel api s iv e n cur acc)) ! Suc j)
       = batch_next
           (api (n + j) (requests_of (fst (get_historical_data_batch_loop fuel api s iv e n cur acc)) ! j))
           (requests_of (fst (get_historical_data_batch_loop fuel api s iv e n cur acc)) ! j)"
proof (induction fuel arbitrary: n cur acc j)
  case 0
  then show ?case by simp
next
  case (Suc fuel)
  let ?p = "batch_params s iv e cur"
  let ?acc = "acc @ (if answer_frame (api n ?p) = [] then [] else [answer_frame (api n ?p)])"
  let ?rest = "requests_of (fst (get_historical_data_batch_loop fuel api s iv e (Suc n)
           (batch_next (api n ?p) ?p) ?acc))"
  from Suc.prems have lt: "cur < e"
    unfolding batch_requests_Suc by (auto split: if_splits)
  have eq: "requests_of (fst (get_historical_data_batch_loop (Suc fuel) api s iv e n cur acc)) = ?p # ?rest"
    unfolding batch_requests_Suc using lt by simp
  show ?case
  proof (cases j)
    case 0
    with Suc.prems eq have "?rest \<noteq> []" by auto
    from batch_requests_first[OF this] 0 show ?thesis unfolding eq by simp
  next
    case (Suc j')
    with Suc.prems eq have "Suc j' < length ?rest" by simp
    from Suc.IH[OF this] Suc show ?thesis unfolding eq by simp
  qed
qed

lemma batch_loop_stops:
  "snd (get_historical_data_batch_loop fuel api s iv e n cur acc) \<noteq> None \<Longrightarrow>
     (let reqs = requests_of (fst (get_historical_data_batch_loop fuel api s iv e n cur acc))
      in if reqs = [] then e \<le> cur
         else e \<le> batch_next (api (n + length reqs - 1) (last reqs)) (last reqs))"
proof (induction fuel arbitrary: n cur acc)
  case 0
  then show ?case by simp
next
  case (Suc fuel)
  let ?p = "batch_params s iv e cur"
  let ?acc = "acc @ (if answer_frame (api n ?p) = [] then [] else [answer_frame (api n ?p)])"
  let ?rest = "requests_of (fst (get_historical_data_batch_loop fuel api s iv e (Suc n)
           (batch_next (api n ?p) ?p) ?acc))"
  show ?case
  proof (cases "cur < e")
    case False
    then show ?thesis unfolding batch_requests_Suc by (simp add: Let_def)
  next
    case True
    have eq: "requests_of (fst (get_historical_data_batch_loop (Suc fuel) api s iv e n cur acc)) = ?p # ?rest"
      unfolding batch_requests_Suc using True by simp
    from Suc.prems have "snd (get_historical_data_batch_loop fuel api s iv e (Suc n)
           (batch_next (api n ?p) ?p) ?acc) \<noteq> None"
      unfolding batch_result_Suc using True by simp
    from Suc.IH[OF this] show ?thesis
      unfolding eq by (auto simp: Let_def split: if_splits)
  qed
qed


subsection \<open>Pagination\<close>

lemma get_historical_data_events:
  "fst (get_historical_data fuel api s iv start e) =
     fst (get_historical_data_loop fuel api s iv e 0 start [])"
  by (simp add: get_historical_data_def split: prod.splits option.splits sum.splits)

lemma get_historical_data_returns:
  "snd (get_historical_data fuel api s iv start e) \<noteq> None \<longleftrightarrow>
     snd (get_historical_data_loop fuel api s iv e 0 start []) \<noteq> None"
  by (simp add: get_historical_data_def split: prod.splits option.splits sum.splits)


lemma get_historical_data_batch_events:
  "fst (get_historical_data_batch fuel api s iv start e) =
     fst (get_historical_data_batch_loop fuel api s iv e 0 start [])"
  by (simp add: get_historical_data_batch_def split: prod.splits option.splits)

lemma get_historical_data_batch_returns:
  "snd (get_historical_data_batch fuel api s iv start e) \<noteq> None \<longleftrightarrow>
     snd (get_historical_data_batch_loop fuel api s iv e 0 start []) \<noteq> None"
  by (simp add: get_historical_data_batch_def split: prod.splits option.splits)


text \<open>
  Claim C3, as stated, for the batch fetcher: the cursor advances to the close time of the
  last kline plus one, and the loop stops when a response is empty. With an API that
  answers one kline (open time 0, close time 59999) and then nothing, over
  \<open>[0, 100000000]\<close> at interval \<open>1m\<close>, the batch fetcher sends three requests: the second
  starts at 1 (open time plus one, not 60000), and after its empty answer the third is
  sent all the same, at the end of the second window.
\<close>

theorem batch_fetch_continues_after_empty_response:
  "requests_of (fst (get_historical_data_batch 5 one_kline_then_empty_api ''BTCUSDT'' ''1m''
       0 100000000)) =
     [\<lparr>r_symbol = ''BTCUSDT'', r_interval = ''1m'', startTime = 0, endTime = 60000000,
        limit = 1000\<rparr>,
      \<lparr>r_symbol = ''BTCUSDT'', r_interval = ''1m'', startTime = 1, endTime = 60000001,
        limit = 1000\<rparr>,
      \<lparr>r_symbol = ''BTCUSDT'', r_interval = ''1m'', startTime = 60000001, endTime = 100000000,
        limit = 1000\<rparr>]
   \<and> one_kline_then_empty_api 1
       \<lparr>r_symbol = ''BTCUSDT'', r_interval = ''1m'', startTime = 1, endTime = 60000001,
        limit = 1000\<rparr> = Klines []
   \<and> k_close_time (last [example_kline 0 59999]) + 1 = 60000"
  by (simp add: get_historical_data_batch_def one_kline_then_empty_api_def example_kline_def
      calculate_batch_size_def dict_get_def eval_nat_numeral)

text \<open>
  Claim C3, amended. Both fetch loops ask for at most 1000 records per call and never send
  a request from a cursor at or beyond the end. The sequential fetcher requests
  \<open>[cursor, end]\<close>; a further request follows only a non-empty answer and starts at the
  close time of its last entry plus one; when the loop has ended, the cursor had reached
  the end, or the last answer was empty or its close time unreadable, or the last request
  failed. The batch fetcher requests \<open>[cursor, min (cursor + batch width, end)]\<close>; its next
  request starts at the open time of the last kline plus one after a non-empty answer
  that converts to a data frame, and at the end of the requested window after an empty
  answer, a failed request or an answer that does not convert; it ends only when that
  cursor has reached the end. In both, answer \<open>j\<close> is the answer to request \<open>j\<close>.
\<close>

theorem fetch_loops_paginate:
  "(let reqs = requests_of (fst (get_historical_data fuel api s iv start e))
    in (\<forall>j<length reqs. limit (reqs ! j) = 1000 \<and> endTime (reqs ! j) = e
            \<and> startTime (reqs ! j) < e)
       \<and> (reqs \<noteq> [] \<longrightarrow> startTime (reqs ! 0) = start)
       \<and> (\<forall>j. Suc j < length reqs \<longrightarrow>
            (\<exists>data c. api j (reqs ! j) = Klines data \<and> data \<noteq> []
                \<and> entry_close_time (last data) = Some c
                \<and> startTime (reqs ! Suc j) = c + 1))
       \<and> (snd (get_historical_data fuel api s iv start e) \<noteq> None \<longrightarrow>
            (if reqs = [] then e \<le> start
             else (case api (length reqs - 1) (last reqs) of
                     Klines data \<Rightarrow>
                       data = [] \<or> (case entry_close_time (last data) of
                                      None \<Rightarrow> True | Some c \<Rightarrow> e \<le> c + 1)
                   | _ \<Rightarrow> True))))
   \<and> (let reqs = requests_of (fst (get_historical_data_batch fuel api s iv start e))
      in (\<forall>j<length reqs. limit (reqs ! j) = 1000 \<and> startTime (reqs ! j) < e
              \<and> endTime (reqs ! j) = min (startTime (reqs ! j) + calculate_batch_size iv) e)
         \<and> (reqs \<noteq> [] \<longrightarrow> startTime (reqs ! 0) = start)
         \<and> (\<forall>j. Suc j < length reqs \<longrightarrow>
              startTime (reqs ! Suc j) = batch_next (api j (reqs ! j)) (reqs ! j))
         \<and> (snd (get_historical_data_batch fuel api s iv start e) \<noteq> None \<longrightarrow>
              (if reqs = [] then e \<le> start
               else e \<le> batch_next (api (length reqs - 1) (last reqs)) (last reqs))))"
proof -
  let ?sq = "requests_of (fst (get_historical_data_loop fuel api s iv e 0 start []))"
  let ?bt = "requests_of (fst (get_historical_data_batch_loop fuel api s iv e 0 start []))"
  have s1: "\<forall>j<length ?sq. limit (?sq ! j) = 1000 \<and> endTime (?sq ! j) = e \<and> startTime (?sq ! j) < e"
    using seq_requests_shape[of _ fuel api s iv e 0 start "[]"] by (auto dest: nth_mem)
  have s2: "?sq \<noteq> [] \<longrightarrow> startTime (?sq ! 0) = start"
    using seq_requests_first[of fuel api s iv e 0 start "[]"] by blast
  have s3: "\<forall>j. Suc j < length ?sq \<longrightarrow>
            (\<exists>data c. api j (?sq ! j) = Klines data \<and> data \<noteq> []
                \<and> entry_close_time (last data) = Some c
                \<and> startTime (?sq ! Suc j) = c + 1)"
    using seq_requests_next[of _ fuel api s iv e 0 start "[]"] by auto
  have s4: "snd (get_historical_data fuel api s iv start e) \<noteq> None \<longrightarrow>
            (if ?sq = [] then e \<le> start
             else (case api (length ?sq - 1) (last ?sq) of
                     Klines data \<Rightarrow>
                       data = [] \<or> (case entry_close_time (last data) of
                                      None \<Rightarrow> True | Some c \<Rightarrow> e \<le> c + 1)
                   | _ \<Rightarrow> True))"
  proof
    assume "snd (get_historical_data fuel api s iv start e) \<noteq> None"
    then have "snd (get_historical_data_loop fuel api s iv e 0 start []) \<noteq> None"
      unfolding get_historical_data_returns .
    from seq_loop_stops[OF this] show "if ?sq = [] then e \<le> start
             else (case api (length ?sq - 1) (last ?sq) of
                     Klines data \<Rightarrow>
                       data = [] \<or> (case entry_close_time (last data) of
                                      None \<Rightarrow> True | Some c \<Rightarrow> e \<le> c + 1)
                   | _ \<Rightarrow> True)"
      by (auto simp: Let_def split: if_splits)
  qed
  have b1: "\<forall>j<length ?bt. limit (?bt ! j) = 1000 \<and> startTime (?bt ! j) < e
              \<and> endTime (?bt ! j) = min (startTime (?bt ! j) + calculate_batch_size iv) e"
    using batch_requests_shape[of _ fuel api s iv e 0 start "[]"] by (auto dest: nth_mem)
  have b2: "?bt \<noteq> [] \<longrightarrow> startTime (?bt ! 0) = start"
    using batch_requests_first[of fuel api s iv e 0 start "[]"] by blast
  have b3: "\<forall>j. Suc j < length ?bt \<longrightarrow>
              startTime (?bt ! Suc j) = batch_next (api j (?bt ! j)) (?bt ! j)"
    using batch_requests_next[of _ fuel api s iv e 0 start "[]"] by auto
  have b4: "snd (get_historical_data_batch fuel api s iv start e) \<noteq> None \<longrightarrow>
              (if ?bt = [] then e \<le> start
               else e \<le> batch_next (api (length ?bt - 1) (last ?bt)) (last ?bt))"
  proof
    assume "snd (get_historical_data_batch fuel api s iv start e) \<noteq> None"
    then have "snd (get_historical_data_batch_loop fuel api s iv e 0 start []) \<noteq> None"
      unfolding get_historical_data_batch_returns .
    from batch_loop_stops[OF this] show "if ?bt = [] then e \<le> start
               else e \<le> batch_next (api (length ?bt - 1) (last ?bt)) (last ?bt)"
      by (auto simp: Let_def split: if_splits)
  qed
  from s1 s2 s3 s4 b1 b2 b3 b4 show ?thesis
    unfolding Let_def get_historical_data_events get_historical_data_batch_events by blast
qed

theorem fetch_loops_paginate_witness:
  "Suc 0 < length (requests_of (fst (get_historical_data 5 steady_api ''BTCUSDT'' ''1m'' 0 100)))
   \<and> requests_of (fst (get_historical_data 5 steady_api ''BTCUSDT'' ''1m'' 0 100)) \<noteq> []
   \<and> snd (get_historical_data 5 steady_api ''BTCUSDT'' ''1m'' 0 100) \<noteq> None
   \<and> startTime (requests_of (fst (get_historical_data 5 steady_api ''BTCUSDT'' ''1m'' 0 100))
        ! Suc 0) = 60
   \<and> Suc 0 < length (requests_of (fst (get_historical_data_batch 5 steady_api ''BTCUSDT'' ''1m'' 0 2)))
   \<and> snd (get_historical_data_batch 5 steady_api ''BTCUSDT'' ''1m'' 0 2) \<noteq> None
   \<and> startTime (requests_of (fst (get_historical_data_batch 5 steady_api ''BTCUSDT'' ''1m'' 0 2))
        ! Suc 0) = 1
   \<and> startTime (requests_of (fst (get_historical_data_batch 5 malformed_api ''BTCUSDT'' ''1m''
        0 100000000)) ! Suc 0) = 60000000"
  using fetch_loops_paginate[of 5 steady_api "''BTCUSDT''" "''1m''" 0 100]
    fetch_loops_paginate[of 5 steady_api "''BTCUSDT''" "''1m''" 0 2]
    fetch_loops_paginate[of 5 malformed_api "''BTCUSDT''" "''1m''" 0 100000000]
  by (simp add: get_historical_data_def get_historical_data_batch_def steady_api_def
      malformed_api_def example_kline_def calculate_batch_size_def dict_get_def eval_nat_numeral)

subsection \<open>Failed requests\<close>





subsection \<open>Request pacing\<close>




lemma rate_limit_events:
  "fst (rate_limit c) =
     [RateLimited, Sleep (if max_requests_per_second \<le> c + 1 then 1000 else 100)]"
  by (simp add: rate_limit_def Let_def)

lemma rate_limit_count:
  "snd (rate_limit c) = (if max_requests_per_second \<le> c + 1 then 0 else c + 1)"
  by (simp add: rate_limit_def Let_def)







end
